theory Spec2Isabelle
  imports Complex_Main
begin

section \<open>Numbers and library functions of the host language\<close>

text \<open>
  The programs are JavaScript. Every JavaScript number is modelled as a \<^typ>\<open>real\<close>
  (clock readings of \<open>Date.now()\<close> included), every counter that is only ever
  incremented from zero as a \<^typ>\<open>nat\<close>. \<open>Math.sqrt\<close>, \<open>Math.abs\<close>,
  \<open>Math.pow(v, 2)\<close>, \<open>Math.max\<close>, \<open>Math.min\<close> and \<open>Math.PI\<close> are the functions
  \<^term>\<open>sqrt\<close>, \<^term>\<open>abs\<close>, squaring, \<^term>\<open>max\<close>, \<^term>\<open>min\<close> and \<^term>\<open>pi\<close>.
\<close>

text \<open>
  \<open>Math.atan2(y, x)\<close>: the angle of the point \<open>(x, y)\<close> against the positive x axis,
  in the interval from \<open>-pi\<close> to \<open>pi\<close>; \<open>atan2(0, 0)\<close> is \<open>0\<close>.
\<close>

definition atan2 :: "real \<Rightarrow> real \<Rightarrow> real" where
  "atan2 y x =
     (if 0 < x then arctan (y / x)
      else if x < 0 then (if 0 \<le> y then arctan (y / x) + pi else arctan (y / x) - pi)
      else if 0 < y then pi / 2
      else if y < 0 then - (pi / 2)
      else 0)"


text \<open>
  Objects with coordinates. The field \<open>px\<close> is the source's \<open>.x\<close>, \<open>py\<close> its \<open>.y\<close>,
  \<open>pz\<close> its \<open>.z\<close>; the source's functions read these fields of whatever object they
  are handed, so they are modelled over every extension of \<open>point\<close>.
\<close>

record point =
  px :: real
  py :: real

record point3 = point +
  pz :: real

section \<open>The wall-hit detector (ball-detector.js, class BallDetector)\<close>

text \<open>
  What a detector hands to \<open>updateBallTracking\<close>: both \<open>detectBallWithAI\<close> and
  \<open>detectBallByColor\<close> return an object with \<open>x\<close>, \<open>y\<close> and a numeric \<open>confidence\<close>.
\<close>

record tracked = point +
  confidence :: real

text \<open>An entry of \<open>ballPositions\<close>: \<open>{x, y, time, confidence}\<close>.\<close>

record sample = tracked +
  time :: real

text \<open>What \<open>calculateVelocity\<close> returns: \<open>{x, y, magnitude}\<close>.\<close>

record velocity = point +
  magnitude :: real

datatype error = TypeError

text \<open>
  The fields of a \<open>BallDetector\<close> that the tracking code reads or writes.
  \<open>hitCounterText\<close> is \<open>hitCounter.textContent\<close> (always written from a number) and
  \<open>statusText\<close> is \<open>statusText.textContent\<close>.
\<close>

record detector =
  hitCount :: nat
  ballPositions :: "sample list"
  lastBallPosition :: "tracked option"
  velocityHistory :: "velocity list"
  sensitivity :: real
  maxPositionHistory :: nat
  velocityThreshold :: real
  directionChangeThreshold :: real
  minTimeBetweenHits :: real
  lastHitTime :: real
  hitCounterText :: nat
  statusText :: string

text \<open>
  The state the constructor leaves (the fields above). The texts of the two elements
  come from the page, which the constructor does not write; they are parameters.
\<close>

definition constructor :: "nat \<Rightarrow> string \<Rightarrow> detector" where
  "constructor counterText status =
     \<lparr> hitCount = 0, ballPositions = [], lastBallPosition = None, velocityHistory = [],
       sensitivity = 1, maxPositionHistory = 10, velocityThreshold = 50,
       directionChangeThreshold = 120, minTimeBetweenHits = 1000, lastHitTime = 0,
       hitCounterText = counterText, statusText = status \<rparr>"

definition calculateVelocity :: "sample \<Rightarrow> sample \<Rightarrow> velocity" where
  "calculateVelocity pos1 pos2 =
     (let dx = px pos2 - px pos1;
          dy = py pos2 - py pos1;
          dt = time pos2 - time pos1
      in if dt = 0 then \<lparr> px = 0, py = 0, magnitude = 0 \<rparr>
         else
           (let vx = dx / dt * 1000;
                vy = dy / dt * 1000;
                mag = sqrt (vx * vx + vy * vy)
            in \<lparr> px = vx, py = vy, magnitude = mag \<rparr>))"

definition calculateDirectionChange :: "velocity \<Rightarrow> velocity \<Rightarrow> real" where
  "calculateDirectionChange velocity1 velocity2 =
     (if magnitude velocity1 = 0 \<or> magnitude velocity2 = 0 then 0
      else
        (let angle1 = atan2 (py velocity1) (px velocity1);
             angle2 = atan2 (py velocity2) (px velocity2);
             angleDiff = \<bar>angle2 - angle1\<bar> * 180 / pi
         in if angleDiff > 180 then 360 - angleDiff else angleDiff))"

text \<open>
  \<open>registerHit\<close>: the counter and its text. The animation and the beep
  (\<open>playHitSound\<close>, which catches its own exceptions) touch no field of the detector.
\<close>

definition registerHit :: "detector \<Rightarrow> detector" where
  "registerHit s = s\<lparr> hitCount := hitCount s + 1, hitCounterText := hitCount s + 1 \<rparr>"

text \<open>
  \<open>calculateVelocityAndDetectHit\<close>; \<open>now\<close> is what its \<open>Date.now()\<close> returns. With
  fewer than three positions one of the three reads is \<open>undefined\<close> and
  \<open>calculateVelocity\<close> throws a TypeError on it before anything is written.
\<close>

definition calculateVelocityAndDetectHit :: "real \<Rightarrow> detector \<Rightarrow> error + detector" where
  "calculateVelocityAndDetectHit now s =
     (let positions = ballPositions s in
      if length positions < 3 then Inl TypeError
      else
        (let current = positions ! (length positions - 1);
             previous = positions ! (length positions - 2);
             beforePrevious = positions ! (length positions - 3);
             velocity1 = calculateVelocity beforePrevious previous;
             velocity2 = calculateVelocity previous current;
             pushed = velocityHistory s @ [velocity2];
             s1 = s\<lparr> velocityHistory := (if length pushed > 5 then tl pushed else pushed) \<rparr>;
             directionChange = calculateDirectionChange velocity1 velocity2;
             speedChange = \<bar>magnitude velocity2 - magnitude velocity1\<bar>;
             currentTime = now;
             timeSinceLastHit = currentTime - lastHitTime s1;
             isSignificantDirectionChange = directionChange > directionChangeThreshold s1;
             isSignificantSpeedChange = speedChange > velocityThreshold s1 * sensitivity s1;
             isMinTimeElapsed = timeSinceLastHit > minTimeBetweenHits s1
         in if (isSignificantDirectionChange \<or> isSignificantSpeedChange) \<and> isMinTimeElapsed
            then Inr ((registerHit s1)\<lparr> lastHitTime := currentTime \<rparr>)
            else Inr s1))"

text \<open>
  \<open>updateBallTracking\<close>, in two parts. \<open>pushPosition\<close> is its first half: the push
  onto \<open>ballPositions\<close> and the eviction of the oldest entry; \<open>t\<close> is what the
  \<open>Date.now()\<close> of \<open>updateBallTracking\<close> returns. \<open>position.confidence || 1\<close> stores
  \<open>1\<close> for a confidence of zero.
\<close>

definition pushPosition :: "tracked \<Rightarrow> real \<Rightarrow> detector \<Rightarrow> detector" where
  "pushPosition position t s =
     (let currentTime = t;
          pushed = ballPositions s @
            [\<lparr> px = px position, py = py position,
               confidence = (if confidence position = 0 then 1 else confidence position),
               time = currentTime \<rparr>]
      in s\<lparr> ballPositions :=
             (if length pushed > maxPositionHistory s then tl pushed else pushed) \<rparr>)"

text \<open>
  The whole of \<open>updateBallTracking\<close>; \<open>now\<close> is what the \<open>Date.now()\<close> in
  \<open>calculateVelocityAndDetectHit\<close> returns.
\<close>

definition updateBallTracking :: "tracked \<Rightarrow> real \<Rightarrow> real \<Rightarrow> detector \<Rightarrow> error + detector" where
  "updateBallTracking position t now s =
     (let s1 = pushPosition position t s
      in case (if length (ballPositions s1) \<ge> 3 then calculateVelocityAndDetectHit now s1
               else Inr s1) of
           Inl e \<Rightarrow> Inl e
         | Inr s2 \<Rightarrow> Inr (s2\<lparr> lastBallPosition := Some position \<rparr>))"

definition resetCounter :: "detector \<Rightarrow> detector" where
  "resetCounter s =
     s\<lparr> hitCount := 0, hitCounterText := 0, ballPositions := [], velocityHistory := [],
        lastHitTime := 0, statusText := ''Counter reset.'' \<rparr>"

text \<open>
  What happens to a detector from outside: a detected ball handed to
  \<open>updateBallTracking\<close> (with the two clock readings of that call), the reset button,
  and the sensitivity slider. A thrown exception ends the run.
\<close>

datatype event = Track tracked real real | ResetCounter | Sensitivity real

fun run :: "event list \<Rightarrow> detector \<Rightarrow> error + detector" where
  "run [] s = Inr s"
| "run (Track position t now # evs) s =
     (case updateBallTracking position t now s of Inl e \<Rightarrow> Inl e | Inr s' \<Rightarrow> run evs s')"
| "run (ResetCounter # evs) s = run evs (resetCounter s)"
| "run (Sensitivity v # evs) s = run evs (s\<lparr> sensitivity := v \<rparr>)"

text \<open>
  The firing condition as the specification words it, over the window \<open>ballPositions\<close>:
  with \<open>v_prev\<close> and \<open>v_curr\<close> the velocities between the last three samples, a hit
  fires when the direction change exceeds \<open>directionThreshold\<close> or the speed change
  exceeds \<open>velocityThreshold * sensitivity\<close>, and more than \<open>minHitInterval\<close> has
  passed since \<open>lastHitTime\<close>.
\<close>

definition spec_hit_fires :: "real \<Rightarrow> detector \<Rightarrow> bool" where
  "spec_hit_fires now s =
     (let window = ballPositions s;
          n = length window;
          v_prev = calculateVelocity (window ! (n - 3)) (window ! (n - 2));
          v_curr = calculateVelocity (window ! (n - 2)) (window ! (n - 1));
          directionChange = calculateDirectionChange v_prev v_curr;
          speedChange = \<bar>magnitude v_curr - magnitude v_prev\<bar>
      in (directionChange > directionChangeThreshold s
            \<or> speedChange > velocityThreshold s * sensitivity s)
         \<and> now - lastHitTime s > minTimeBetweenHits s)"

text \<open>
  The entry that \<open>pushPosition\<close> appends for a detected ball and the clock reading
  \<open>t\<close> (the second clock reading of the call plays no part in it).
\<close>

definition stored :: "tracked \<times> real \<times> real \<Rightarrow> sample" where
  "stored e =
     (case e of (position, t, now) \<Rightarrow>
        \<lparr> px = px position, py = py position,
          confidence = (if confidence position = 0 then 1 else confidence position),
          time = t \<rparr>)"

text \<open>A run of detected balls only, each with the two clock readings of its call.\<close>

definition tracks :: "(tracked \<times> real \<times> real) list \<Rightarrow> event list" where
  "tracks ts = map (\<lambda>(position, t, now). Track position t now) ts"

section \<open>The rep counters (two revisions of the pose script)\<close>

datatype rep_state = READY | THROWING | CATCHING

text \<open>
  The three entries of \<open>results.poseLandmarks\<close> that the scripts read (12, 14 and 16);
  an entry may be missing. \<open>results.poseLandmarks\<close> itself may be missing: a frame is a
  \<open>landmarks option\<close>.
\<close>

record landmarks =
  shoulder :: "point3 option"
  elbow :: "point3 option"
  wrist :: "point3 option"

text \<open>\<open>calculateAngle\<close>, word for word the same function in both revisions.\<close>

definition calculateAngle :: "'a point_scheme \<Rightarrow> 'b point_scheme \<Rightarrow> 'c point_scheme \<Rightarrow> real" where
  "calculateAngle a b c =
     (let radians = atan2 (py c - py b) (px c - px b) - atan2 (py a - py b) (px a - px b);
          angle = \<bar>radians * 180 / pi\<bar>
      in if angle > 180 then 360 - angle else angle)"

text \<open>
  The counter, the state and the text of the counter element
  (\<open>repCounterElement.innerText\<close>).
\<close>

record counter =
  repCount :: nat
  state :: rep_state
  repCounterText :: nat

subsection \<open>The first revision\<close>

record counter1 = counter +
  lastHandPos :: "point option"

definition onResults1 :: "landmarks option \<Rightarrow> counter1 \<Rightarrow> counter1" where
  "onResults1 results s =
     (case results of
        None \<Rightarrow> s
      | Some lms \<Rightarrow>
          (case (shoulder lms, elbow lms, wrist lms) of
             (Some sh, Some el, Some wr) \<Rightarrow>
               (let elbowAngle = calculateAngle sh el wr;
                    wristPos = \<lparr> px = px wr, py = py wr \<rparr>;
                    wristVelocity =
                      (case lastHandPos s of
                         None \<Rightarrow> \<lparr> px = 0, py = 0 \<rparr>
                       | Some l \<Rightarrow> \<lparr> px = px wristPos - px l, py = py wristPos - py l \<rparr>);
                    s1 = s\<lparr> lastHandPos := Some wristPos \<rparr>;
                    throwThreshold = 3 / 100
                in case state s1 of
                     READY \<Rightarrow>
                       if px wristVelocity > throwThreshold \<and> elbowAngle > 100
                       then s1\<lparr> state := THROWING \<rparr> else s1
                   | THROWING \<Rightarrow>
                       if px wristVelocity < - throwThreshold
                       then s1\<lparr> state := CATCHING \<rparr> else s1
                   | CATCHING \<Rightarrow>
                       (let distanceToShoulder =
                              sqrt ((px wr - px sh)\<^sup>2 + (py wr - py sh)\<^sup>2)
                        in if distanceToShoulder < 2 / 10
                           then s1\<lparr> repCount := repCount s1 + 1,
                                    repCounterText := repCount s1 + 1,
                                    state := READY \<rparr>
                           else s1))
           | _ \<Rightarrow> s))"

text \<open>The first revision as the script leaves it when it has loaded.\<close>

definition loaded1 :: "nat \<Rightarrow> counter1" where
  "loaded1 counterText =
     \<lparr> repCount = 0, state = READY, repCounterText = counterText, lastHandPos = None \<rparr>"

fun run1 :: "landmarks option list \<Rightarrow> counter1 \<Rightarrow> counter1" where
  "run1 [] s = s"
| "run1 (r # rs) s = run1 rs (onResults1 r s)"

text \<open>
  The x component of the \<open>wristVelocity\<close> that \<open>onResults\<close> computes for a frame:
  the wrist's x minus the stored one, zero while no hand position is stored.
\<close>

definition wristVelocityX :: "landmarks option \<Rightarrow> counter1 \<Rightarrow> real" where
  "wristVelocityX r s =
     (case r of
        None \<Rightarrow> 0
      | Some lms \<Rightarrow>
          (case wrist lms of
             None \<Rightarrow> 0
           | Some wr \<Rightarrow> (case lastHandPos s of None \<Rightarrow> 0 | Some l \<Rightarrow> px wr - px l)))"

subsection \<open>Loading the scripts\<close>





subsection \<open>The consistency function of the second revision\<close>






subsection \<open>Conditions on a frame\<close>

text \<open>
  The conditions on a frame as the specification words them. \<open>has_arm\<close>: the frame
  has landmarks and the three the scripts read are there. \<open>near_anchor\<close>: the Euclidean
  distance from the tracked point (the wrist) to the reference anchor (the shoulder) is
  below the proximity threshold.
\<close>

definition has_arm :: "landmarks option \<Rightarrow> bool" where
  "has_arm r =
     (case r of
        None \<Rightarrow> False
      | Some lms \<Rightarrow> shoulder lms \<noteq> None \<and> elbow lms \<noteq> None \<and> wrist lms \<noteq> None)"

definition near_anchor :: "real \<Rightarrow> landmarks option \<Rightarrow> bool" where
  "near_anchor threshold r =
     (case r of
        None \<Rightarrow> False
      | Some lms \<Rightarrow>
          (case (shoulder lms, wrist lms) of
             (Some sh, Some wr) \<Rightarrow> sqrt ((px wr - px sh)\<^sup>2 + (py wr - py sh)\<^sup>2) < threshold
           | _ \<Rightarrow> False))"

text \<open>
  Frames none of which moves the wrist back: no frame of the run, processed in its
  turn, has the three landmarks and an x velocity of the wrist below minus the throw
  threshold.
\<close>

fun never_reverses :: "landmarks option list \<Rightarrow> counter1 \<Rightarrow> bool" where
  "never_reverses [] s = True"
| "never_reverses (r # rs) s =
     (\<not> (has_arm r \<and> wristVelocityX r s < - (3 / 100)) \<and> never_reverses rs (onResults1 r s))"

section \<open>Properties\<close>

subsection \<open>Angles\<close>

lemma atan2_bounds: "- pi < atan2 y x \<and> atan2 y x \<le> pi"
proof -
  have a: "- (pi / 2) < arctan (y / x)" "arctan (y / x) < pi / 2"
    using arctan_lbound arctan_ubound by auto
  show ?thesis
  proof (cases "0 < x")
    case True
    then show ?thesis using a pi_gt_zero by (simp add: atan2_def)
  next
    case False
    show ?thesis
    proof (cases "x < 0")
      case xneg: True
      show ?thesis
      proof (cases "0 \<le> y")
        case True
        then have "y / x \<le> 0" using xneg by (simp add: divide_nonneg_neg)
        then have "arctan (y / x) \<le> 0" using arctan_le_zero_iff by blast
        then show ?thesis using a xneg True by (simp add: atan2_def)
      next
        case yneg: False
        then have "0 < y / x" using xneg by (simp add: divide_neg_neg)
        then have "0 < arctan (y / x)" using zero_less_arctan_iff by blast
        then show ?thesis using a xneg yneg by (simp add: atan2_def)
      qed
    next
      case x0: False
      then show ?thesis unfolding atan2_def using False pi_gt_zero by (auto; linarith)
    qed
  qed
qed

lemma fold_angle_range:
  fixes r :: real
  assumes "\<bar>r\<bar> \<le> 2 * pi"
  shows "0 \<le> (let angle = \<bar>r * 180 / pi\<bar> in if angle > 180 then 360 - angle else angle)"
    and "(let angle = \<bar>r * 180 / pi\<bar> in if angle > 180 then 360 - angle else angle) \<le> 180"
proof -
  have "\<bar>r * 180 / pi\<bar> = \<bar>r\<bar> * 180 / pi"
    unfolding abs_divide abs_mult using pi_gt_zero by simp
  moreover have "\<bar>r\<bar> * 180 \<le> 360 * pi"
    using assms by linarith
  then have "\<bar>r\<bar> * 180 / pi \<le> 360"
    using pi_gt_zero by (simp add: pos_divide_le_eq)
  ultimately have le: "\<bar>r * 180 / pi\<bar> \<le> 360" by simp
  show "0 \<le> (let angle = \<bar>r * 180 / pi\<bar> in if angle > 180 then 360 - angle else angle)"
    using le by (simp add: Let_def)
  show "(let angle = \<bar>r * 180 / pi\<bar> in if angle > 180 then 360 - angle else angle) \<le> 180"
    by (simp add: Let_def)
qed

text \<open>
  Claim C7. For all points \<open>a\<close>, \<open>b\<close>, \<open>c\<close> the joint angle \<open>calculateAngle a b c\<close>
  equals \<open>calculateAngle c b a\<close>, lies between 0 and 180 degrees, and is the absolute
  difference of the two two-argument arctangents in degrees, a value above 180 folded
  to 360 minus the value.
\<close>

theorem calculateAngle_symmetric_and_bounded:
  "calculateAngle a b c = calculateAngle c b a
   \<and> 0 \<le> calculateAngle a b c \<and> calculateAngle a b c \<le> 180
   \<and> calculateAngle a b c =
       (let d = \<bar>atan2 (py c - py b) (px c - px b) - atan2 (py a - py b) (px a - px b)\<bar> * 180 / pi
        in if d > 180 then 360 - d else d)"
proof -
  define u where "u = atan2 (py c - py b) (px c - px b)"
  define v where "v = atan2 (py a - py b) (px a - px b)"
  have ub: "- pi < u" "u \<le> pi" and vb: "- pi < v" "v \<le> pi"
    using atan2_bounds by (simp_all add: u_def v_def)
  have r: "\<bar>u - v\<bar> \<le> 2 * pi" using ub vb by linarith
  have sym: "\<bar>(u - v) * 180 / pi\<bar> = \<bar>(v - u) * 180 / pi\<bar>"
  proof -
    have "(v - u) * 180 / pi = - ((u - v) * 180 / pi)" by (simp add: algebra_simps diff_divide_distrib)
    then show ?thesis by simp
  qed
  have form: "\<bar>(u - v) * 180 / pi\<bar> = \<bar>u - v\<bar> * 180 / pi"
    unfolding abs_divide abs_mult using pi_gt_zero by simp
  have eq: "calculateAngle a b c =
      (let angle = \<bar>(u - v) * 180 / pi\<bar> in if angle > 180 then 360 - angle else angle)"
    by (simp add: calculateAngle_def u_def v_def Let_def)
  have eq': "calculateAngle c b a =
      (let angle = \<bar>(v - u) * 180 / pi\<bar> in if angle > 180 then 360 - angle else angle)"
    by (simp add: calculateAngle_def u_def v_def Let_def)
  have 1: "calculateAngle a b c = calculateAngle c b a"
    unfolding eq eq' sym ..
  have 2: "0 \<le> calculateAngle a b c" unfolding eq using fold_angle_range(1)[OF r] .
  have 3: "calculateAngle a b c \<le> 180" unfolding eq using fold_angle_range(2)[OF r] .
  have 4: "calculateAngle a b c =
       (let d = \<bar>u - v\<bar> * 180 / pi in if d > 180 then 360 - d else d)"
    unfolding eq form ..
  show ?thesis using 1 2 3 4 unfolding u_def v_def by blast
qed

subsection \<open>Degenerate inputs of the velocity functions\<close>

text \<open>
  Claim C6. Two samples with no time between them have the velocity
  \<open>{x: 0, y: 0, magnitude: 0}\<close>, and two velocities of which one has magnitude zero
  have a direction change of zero. Both functions are total: they return a value on
  every input and have no failing branch.
\<close>

theorem degenerate_inputs_give_zero:
  "(time pos2 - time pos1 = 0 \<longrightarrow>
      calculateVelocity pos1 pos2 = \<lparr> px = 0, py = 0, magnitude = 0 \<rparr>)
   \<and> (magnitude v1 = 0 \<or> magnitude v2 = 0 \<longrightarrow> calculateDirectionChange v1 v2 = 0)"
  by (simp add: calculateVelocity_def calculateDirectionChange_def)


theorem degenerate_inputs_give_zero_witness:
  "time \<lparr> px = 5, py = 7, confidence = 1, time = 1000 \<rparr>
     - time \<lparr> px = 0, py = 0, confidence = 1, time = 1000 \<rparr> = 0
   \<and> calculateVelocity \<lparr> px = 0, py = 0, confidence = 1, time = 1000 \<rparr>
        \<lparr> px = 5, py = 7, confidence = 1, time = 1000 \<rparr>
       = \<lparr> px = 0, py = 0, magnitude = 0 \<rparr>
   \<and> magnitude \<lparr> px = 0, py = 0, magnitude = 0 \<rparr> = 0
   \<and> calculateDirectionChange \<lparr> px = 0, py = 0, magnitude = 0 \<rparr>
        \<lparr> px = 3, py = 4, magnitude = 5 \<rparr> = 0"
  using degenerate_inputs_give_zero
    [of "\<lparr> px = 5, py = 7, confidence = 1, time = 1000 \<rparr>"
        "\<lparr> px = 0, py = 0, confidence = 1, time = 1000 \<rparr>"
        "\<lparr> px = 0, py = 0, magnitude = 0 \<rparr>"
        "\<lparr> px = 3, py = 4, magnitude = 5 \<rparr>"]
  by simp

subsection \<open>The hit decision\<close>

lemma pushPosition_fields [simp]:
  "hitCount (pushPosition p t s) = hitCount s"
  "hitCounterText (pushPosition p t s) = hitCounterText s"
  "lastHitTime (pushPosition p t s) = lastHitTime s"
  "minTimeBetweenHits (pushPosition p t s) = minTimeBetweenHits s"
  "velocityHistory (pushPosition p t s) = velocityHistory s"
  "maxPositionHistory (pushPosition p t s) = maxPositionHistory s"
  "sensitivity (pushPosition p t s) = sensitivity s"
  "velocityThreshold (pushPosition p t s) = velocityThreshold s"
  "directionChangeThreshold (pushPosition p t s) = directionChangeThreshold s"
  by (simp_all add: pushPosition_def Let_def)

text \<open>The velocity history after one call of \<open>calculateVelocityAndDetectHit\<close>.\<close>

lemma detect_result:
  assumes "3 \<le> length (ballPositions s)"
  shows "\<exists>vh. calculateVelocityAndDetectHit now s =
           Inr (if spec_hit_fires now s
                then s\<lparr> velocityHistory := vh, hitCount := hitCount s + 1,
                        hitCounterText := hitCount s + 1, lastHitTime := now \<rparr>
                else s\<lparr> velocityHistory := vh \<rparr>)"
  using assms
  by (auto simp add: calculateVelocityAndDetectHit_def spec_hit_fires_def registerHit_def Let_def)

lemma track_result:
  "\<exists>s'. updateBallTracking position t now s = Inr s'
     \<and> hitCount s' =
         (if 3 \<le> length (ballPositions (pushPosition position t s))
             \<and> spec_hit_fires now (pushPosition position t s)
          then hitCount s + 1 else hitCount s)
     \<and> hitCounterText s' =
         (if 3 \<le> length (ballPositions (pushPosition position t s))
             \<and> spec_hit_fires now (pushPosition position t s)
          then hitCount s + 1 else hitCounterText s)
     \<and> lastHitTime s' =
         (if 3 \<le> length (ballPositions (pushPosition position t s))
             \<and> spec_hit_fires now (pushPosition position t s)
          then now else lastHitTime s)
     \<and> minTimeBetweenHits s' = minTimeBetweenHits s"
proof (cases "3 \<le> length (ballPositions (pushPosition position t s))")
  case True
  from detect_result[OF True, of now] obtain vh where
    "calculateVelocityAndDetectHit now (pushPosition position t s) =
       Inr (if spec_hit_fires now (pushPosition position t s)
            then (pushPosition position t s)\<lparr> velocityHistory := vh,
                   hitCount := hitCount (pushPosition position t s) + 1,
                   hitCounterText := hitCount (pushPosition position t s) + 1,
                   lastHitTime := now \<rparr>
            else (pushPosition position t s)\<lparr> velocityHistory := vh \<rparr>)"
    by blast
  then show ?thesis using True by (simp add: updateBallTracking_def Let_def)
next
  case False
  then show ?thesis by (simp add: updateBallTracking_def Let_def)
qed

lemma no_hit_within_interval:
  assumes "\<forall>e \<in> set ts. case e of (p, t, now') \<Rightarrow> now' - lastHitTime s \<le> minTimeBetweenHits s"
  shows "\<exists>s2. run (tracks ts) s = Inr s2 \<and> hitCount s2 = hitCount s"
  using assms
proof (induction ts arbitrary: s)
  case Nil
  then show ?case by (simp add: tracks_def)
next
  case (Cons e ts)
  obtain p t now' where e: "e = (p, t, now')" by (cases e) auto
  from Cons.prems have late: "now' - lastHitTime s \<le> minTimeBetweenHits s"
    by (simp add: e)
  then have nofire: "\<not> spec_hit_fires now' (pushPosition p t s)"
    by (simp add: spec_hit_fires_def Let_def)
  from track_result[of p t now' s] obtain s' where
    s': "updateBallTracking p t now' s = Inr s'" "hitCount s' = hitCount s"
        "lastHitTime s' = lastHitTime s" "minTimeBetweenHits s' = minTimeBetweenHits s"
    using nofire by auto
  have "\<forall>e \<in> set ts. case e of (p, t, now') \<Rightarrow> now' - lastHitTime s' \<le> minTimeBetweenHits s'"
    using Cons.prems s' by simp
  from Cons.IH[OF this] obtain s2 where "run (tracks ts) s' = Inr s2" "hitCount s2 = hitCount s'"
    by blast
  then show ?case using s' by (simp add: tracks_def e)
qed

text \<open>
  Claim C1. On each detected ball, once the position window (after the push) holds at
  least three samples, a hit fires exactly when the direction change exceeds
  \<open>directionChangeThreshold\<close> or the speed change exceeds
  \<open>velocityThreshold * sensitivity\<close>, and \<open>now - lastHitTime\<close> exceeds
  \<open>minTimeBetweenHits\<close>; the constructor sets these to 120, 50, 1 and 1000. A hit
  adds exactly one to the counter and sets \<open>lastHitTime\<close> to \<open>now\<close>; otherwise both
  stay as they are. After a hit at \<open>now\<close>, no detected ball whose clock reading is within
  \<open>minTimeBetweenHits\<close> of \<open>now\<close> fires, whatever its movement.
\<close>

theorem hit_fires_exactly_when:
  "\<exists>s'. updateBallTracking position t now s = Inr s'
     \<and> (let s1 = pushPosition position t s;
             fires = (3 \<le> length (ballPositions s1) \<and> spec_hit_fires now s1)
         in hitCount s' = (if fires then hitCount s + 1 else hitCount s)
            \<and> hitCounterText s' = (if fires then hitCount s + 1 else hitCounterText s)
            \<and> lastHitTime s' = (if fires then now else lastHitTime s))
     \<and> (hitCount s' = hitCount s + 1 \<longrightarrow>
          (\<forall>ts. (\<forall>e \<in> set ts. case e of (p', t', now') \<Rightarrow> now' - now \<le> minTimeBetweenHits s) \<longrightarrow>
                (\<exists>s2. run (tracks ts) s' = Inr s2 \<and> hitCount s2 = hitCount s')))
     \<and> directionChangeThreshold (constructor counterText status) = 120
     \<and> velocityThreshold (constructor counterText status) = 50
     \<and> sensitivity (constructor counterText status) = 1
     \<and> minTimeBetweenHits (constructor counterText status) = 1000"
proof -
  from track_result[of position t now s] obtain s' where
    r: "updateBallTracking position t now s = Inr s'"
    and h: "hitCount s' =
         (if 3 \<le> length (ballPositions (pushPosition position t s))
             \<and> spec_hit_fires now (pushPosition position t s)
          then hitCount s + 1 else hitCount s)"
    and c: "hitCounterText s' =
         (if 3 \<le> length (ballPositions (pushPosition position t s))
             \<and> spec_hit_fires now (pushPosition position t s)
          then hitCount s + 1 else hitCounterText s)"
    and l: "lastHitTime s' =
         (if 3 \<le> length (ballPositions (pushPosition position t s))
             \<and> spec_hit_fires now (pushPosition position t s)
          then now else lastHitTime s)"
    and m: "minTimeBetweenHits s' = minTimeBetweenHits s"
    by blast
  have deb: "\<exists>s2. run (tracks ts) s' = Inr s2 \<and> hitCount s2 = hitCount s'"
    if fired: "hitCount s' = hitCount s + 1"
      and near: "\<forall>e \<in> set ts. case e of (p', t', now') \<Rightarrow> now' - now \<le> minTimeBetweenHits s"
    for ts
  proof -
    from fired h have "lastHitTime s' = now" using l by (simp split: if_splits)
    with near m have "\<forall>e \<in> set ts. case e of (p', t', now') \<Rightarrow>
        now' - lastHitTime s' \<le> minTimeBetweenHits s'" by simp
    then show ?thesis by (rule no_hit_within_interval)
  qed
  have defaults: "directionChangeThreshold (constructor counterText status) = 120
     \<and> velocityThreshold (constructor counterText status) = 50
     \<and> sensitivity (constructor counterText status) = 1
     \<and> minTimeBetweenHits (constructor counterText status) = 1000"
    by (simp add: constructor_def)
  show ?thesis
    apply (rule exI[of _ s'])
    using r h c l deb defaults by (simp add: Let_def)
qed

theorem hit_fires_exactly_when_witness:
  "\<exists>s'. updateBallTracking \<lparr> px = 0, py = 0, confidence = 1 \<rparr> 100200 100200
          ((constructor 0 [])\<lparr> ballPositions :=
             [\<lparr> px = 0, py = 0, confidence = 1, time = 100000 \<rparr>,
              \<lparr> px = 10, py = 0, confidence = 1, time = 100100 \<rparr>] \<rparr>) = Inr s'
     \<and> hitCount s' = 1 \<and> hitCounterText s' = 1 \<and> lastHitTime s' = 100200
     \<and> (\<exists>s2. run (tracks [(\<lparr> px = 10, py = 0, confidence = 1 \<rparr>, 100300, 100300),
                            (\<lparr> px = 0, py = 0, confidence = 1 \<rparr>, 100400, 100400)]) s' = Inr s2
              \<and> hitCount s2 = 1)"
proof -
  define S0 where "S0 = (constructor 0 [])\<lparr> ballPositions :=
             [\<lparr> px = 0, py = 0, confidence = 1, time = 100000 \<rparr>,
              \<lparr> px = 10, py = 0, confidence = 1, time = 100100 \<rparr>] \<rparr>"
  define P3 where "P3 = \<lparr> px = 0, py = 0, confidence = (1::real) \<rparr>"
  define ts where "ts = [(\<lparr> px = 10, py = 0, confidence = (1::real) \<rparr>, 100300::real, 100300::real),
                            (\<lparr> px = 0, py = 0, confidence = 1 \<rparr>, 100400, 100400)]"
  have win: "ballPositions (pushPosition P3 100200 S0) =
      [\<lparr> px = 0, py = 0, confidence = 1, time = 100000 \<rparr>,
       \<lparr> px = 10, py = 0, confidence = 1, time = 100100 \<rparr>,
       \<lparr> px = 0, py = 0, confidence = 1, time = 100200 \<rparr>]"
    by (simp add: pushPosition_def S0_def P3_def constructor_def Let_def)
  have v1: "calculateVelocity \<lparr> px = 0, py = 0, confidence = 1, time = 100000 \<rparr>
              \<lparr> px = 10, py = 0, confidence = 1, time = 100100 \<rparr>
            = \<lparr> px = 100, py = 0, magnitude = 100 \<rparr>"
    by (simp add: calculateVelocity_def Let_def)
  have v2: "calculateVelocity \<lparr> px = 10, py = 0, confidence = 1, time = 100100 \<rparr>
              \<lparr> px = 0, py = 0, confidence = 1, time = 100200 \<rparr>
            = \<lparr> px = - 100, py = 0, magnitude = 100 \<rparr>"
    by (simp add: calculateVelocity_def Let_def)
  have dc: "calculateDirectionChange \<lparr> px = 100, py = 0, magnitude = 100 \<rparr>
              \<lparr> px = - 100, py = 0, magnitude = 100 \<rparr> = 180"
    by (simp add: calculateDirectionChange_def atan2_def Let_def)
  have zero: "hitCount S0 = 0" "minTimeBetweenHits S0 = 1000"
    by (simp_all add: S0_def constructor_def)
  have cfg: "directionChangeThreshold S0 = 120" "lastHitTime S0 = 0"
    by (simp_all add: S0_def constructor_def)
  have fires: "3 \<le> length (ballPositions (pushPosition P3 100200 S0))
      \<and> spec_hit_fires 100200 (pushPosition P3 100200 S0)"
    by (simp add: spec_hit_fires_def win v1 v2 dc Let_def cfg zero)
  from hit_fires_exactly_when[of P3 100200 100200 S0 0 "[]"] obtain s' where
    r: "updateBallTracking P3 100200 100200 S0 = Inr s'"
    and f: "hitCount s' = 1" "hitCounterText s' = 1" "lastHitTime s' = 100200"
    and d: "\<forall>ts. (\<forall>e \<in> set ts. case e of (p', t', now') \<Rightarrow> now' - 100200 \<le> minTimeBetweenHits S0) \<longrightarrow>
                (\<exists>s2. run (tracks ts) s' = Inr s2 \<and> hitCount s2 = hitCount s')"
    using fires zero by (auto simp add: Let_def)
  have "\<forall>e \<in> set ts. case e of (p', t', now') \<Rightarrow> now' - 100200 \<le> minTimeBetweenHits S0"
    by (simp add: ts_def zero)
  with d obtain s2 where "run (tracks ts) s' = Inr s2" "hitCount s2 = hitCount s'" by blast
  then show ?thesis using r f unfolding S0_def P3_def ts_def by auto
qed

subsection \<open>The velocity history is written and never read\<close>

lemma erased_eq:
  "a\<lparr> velocityHistory := [] \<rparr> = b\<lparr> velocityHistory := [] \<rparr> \<Longrightarrow>
   b = a\<lparr> velocityHistory := velocityHistory b \<rparr>"
  by (cases a, cases b) simp

lemma spec_hit_fires_ignores_velocityHistory [simp]:
  "spec_hit_fires now (a\<lparr> velocityHistory := vh \<rparr>) = spec_hit_fires now a"
  by (simp add: spec_hit_fires_def)

lemma detect_ignores_velocityHistory:
  assumes "3 \<le> length (ballPositions a)"
  shows "\<exists>a' b'. calculateVelocityAndDetectHit now a = Inr a'
           \<and> calculateVelocityAndDetectHit now (a\<lparr> velocityHistory := vh \<rparr>) = Inr b'
           \<and> a'\<lparr> velocityHistory := [] \<rparr> = b'\<lparr> velocityHistory := [] \<rparr>"
proof -
  from detect_result[OF assms, of now] obtain v1 where
    1: "calculateVelocityAndDetectHit now a =
           Inr (if spec_hit_fires now a
                then a\<lparr> velocityHistory := v1, hitCount := hitCount a + 1,
                        hitCounterText := hitCount a + 1, lastHitTime := now \<rparr>
                else a\<lparr> velocityHistory := v1 \<rparr>)" by blast
  have "3 \<le> length (ballPositions (a\<lparr> velocityHistory := vh \<rparr>))" using assms by simp
  from detect_result[OF this, of now] obtain v2 where
    2: "calculateVelocityAndDetectHit now (a\<lparr> velocityHistory := vh \<rparr>) =
           Inr (if spec_hit_fires now a
                then a\<lparr> velocityHistory := v2, hitCount := hitCount a + 1,
                        hitCounterText := hitCount a + 1, lastHitTime := now \<rparr>
                else a\<lparr> velocityHistory := v2 \<rparr>)" by (auto cong: if_cong)
  show ?thesis unfolding 1 2 by simp
qed

lemma pushPosition_velocityHistory:
  "pushPosition p t (a\<lparr> velocityHistory := vh \<rparr>)
     = (pushPosition p t a)\<lparr> velocityHistory := vh \<rparr>"
  by (simp add: pushPosition_def Let_def)

lemma track_ignores_velocityHistory:
  "\<exists>a' b'. updateBallTracking p t now a = Inr a'
     \<and> updateBallTracking p t now (a\<lparr> velocityHistory := vh \<rparr>) = Inr b'
     \<and> a'\<lparr> velocityHistory := [] \<rparr> = b'\<lparr> velocityHistory := [] \<rparr>"
proof (cases "3 \<le> length (ballPositions (pushPosition p t a))")
  case True
  from detect_ignores_velocityHistory[OF True, of now vh] obtain w w' where
    1: "calculateVelocityAndDetectHit now (pushPosition p t a) = Inr w"
    and 2: "calculateVelocityAndDetectHit now ((pushPosition p t a)\<lparr> velocityHistory := vh \<rparr>) = Inr w'"
    and 3: "w\<lparr> velocityHistory := [] \<rparr> = w'\<lparr> velocityHistory := [] \<rparr>"
    by blast
  have "(w\<lparr> lastBallPosition := Some p \<rparr>)\<lparr> velocityHistory := [] \<rparr>
      = (w\<lparr> velocityHistory := [] \<rparr>)\<lparr> lastBallPosition := Some p \<rparr>" by simp
  also have "\<dots> = (w'\<lparr> velocityHistory := [] \<rparr>)\<lparr> lastBallPosition := Some p \<rparr>"
    by (simp only: 3)
  also have "\<dots> = (w'\<lparr> lastBallPosition := Some p \<rparr>)\<lparr> velocityHistory := [] \<rparr>" by simp
  finally show ?thesis
    using True 1 2 by (simp add: updateBallTracking_def pushPosition_velocityHistory Let_def)
next
  case False
  then show ?thesis
    by (simp add: updateBallTracking_def pushPosition_velocityHistory Let_def)
qed

lemma run_ignores_velocityHistory:
  "a\<lparr> velocityHistory := [] \<rparr> = b\<lparr> velocityHistory := [] \<rparr> \<Longrightarrow>
   \<exists>a' b'. run evs a = Inr a' \<and> run evs b = Inr b'
     \<and> a'\<lparr> velocityHistory := [] \<rparr> = b'\<lparr> velocityHistory := [] \<rparr>"
proof (induction evs arbitrary: a b)
  case Nil
  then show ?case by simp
next
  case (Cons e evs)
  define vb where "vb = velocityHistory b"
  have b: "b = a\<lparr> velocityHistory := vb \<rparr>"
    unfolding vb_def using Cons.prems by (rule erased_eq)
  show ?case
  proof (cases e)
    case (Track p t now)
    from track_ignores_velocityHistory[of p t now a vb]
    obtain a' b' where s: "updateBallTracking p t now a = Inr a'"
      "updateBallTracking p t now b = Inr b'"
      "a'\<lparr> velocityHistory := [] \<rparr> = b'\<lparr> velocityHistory := [] \<rparr>"
      unfolding b by blast
    from Cons.IH[OF s(3)] show ?thesis using s Track by simp
  next
    case ResetCounter
    have "(resetCounter a)\<lparr> velocityHistory := [] \<rparr> = (resetCounter b)\<lparr> velocityHistory := [] \<rparr>"
      unfolding b by (simp add: resetCounter_def)
    from Cons.IH[OF this] show ?thesis using ResetCounter by simp
  next
    case (Sensitivity v)
    have "(a\<lparr> sensitivity := v \<rparr>)\<lparr> velocityHistory := [] \<rparr>
        = (b\<lparr> sensitivity := v \<rparr>)\<lparr> velocityHistory := [] \<rparr>"
      unfolding b by simp
    from Cons.IH[OF this] show ?thesis using Sensitivity by simp
  qed
qed

lemma last_three:
  assumes "3 \<le> length xs" "3 \<le> length ys"
    and "drop (length xs - 3) xs = drop (length ys - 3) ys"
  shows "xs ! (length xs - 3) = ys ! (length ys - 3)"
    and "xs ! (length xs - 2) = ys ! (length ys - 2)"
    and "xs ! (length xs - 1) = ys ! (length ys - 1)"
proof -
  have x: "drop (length xs - 3) xs ! i = xs ! (length xs - 3 + i)" for i
    using assms(1) by simp
  have y: "drop (length ys - 3) ys ! i = ys ! (length ys - 3 + i)" for i
    using assms(2) by simp
  have e: "xs ! (length xs - 3 + i) = ys ! (length ys - 3 + i)" for i
    using x[of i] y[of i] assms(3) by simp
  show "xs ! (length xs - 3) = ys ! (length ys - 3)" using e[of 0] by simp
  have "length xs - 3 + 1 = length xs - 2" "length ys - 3 + 1 = length ys - 2"
    using assms by linarith+
  then show "xs ! (length xs - 2) = ys ! (length ys - 2)" using e[of 1] by simp
  have "length xs - 3 + 2 = length xs - 1" "length ys - 3 + 2 = length ys - 1"
    using assms by linarith+
  then show "xs ! (length xs - 1) = ys ! (length ys - 1)" using e[of 2] by simp
qed

text \<open>
  Claim C9. The velocity history is written on every detection step and read by no
  decision: two runs of the detector over the same events, from states that differ
  only in \<open>velocityHistory\<close>, both succeed and end in states that differ at most in
  \<open>velocityHistory\<close>, with the same hit counter and the same \<open>lastHitTime\<close>. And one
  step of \<open>calculateVelocityAndDetectHit\<close> takes the same decision in any two states
  that agree on the last three position samples, the thresholds, the sensitivity and
  \<open>lastHitTime\<close>.
\<close>

theorem velocityHistory_never_read:
  "(\<exists>a b. run evs s = Inr a \<and> run evs (s\<lparr> velocityHistory := vh \<rparr>) = Inr b
       \<and> a\<lparr> velocityHistory := [] \<rparr> = b\<lparr> velocityHistory := [] \<rparr>
       \<and> hitCount a = hitCount b \<and> lastHitTime a = lastHitTime b)
   \<and> (3 \<le> length (ballPositions s) \<and> 3 \<le> length (ballPositions s')
        \<and> drop (length (ballPositions s) - 3) (ballPositions s)
            = drop (length (ballPositions s') - 3) (ballPositions s')
        \<and> directionChangeThreshold s = directionChangeThreshold s'
        \<and> velocityThreshold s = velocityThreshold s'
        \<and> sensitivity s = sensitivity s'
        \<and> minTimeBetweenHits s = minTimeBetweenHits s'
        \<and> lastHitTime s = lastHitTime s'
      \<longrightarrow> (\<exists>a b. calculateVelocityAndDetectHit now s = Inr a
                 \<and> calculateVelocityAndDetectHit now s' = Inr b
                 \<and> (hitCount a = hitCount s + 1) = (hitCount b = hitCount s' + 1)
                 \<and> (hitCount a = hitCount s) = (hitCount b = hitCount s')
                 \<and> lastHitTime a = lastHitTime b))"
proof -
  have "s\<lparr> velocityHistory := [] \<rparr> = (s\<lparr> velocityHistory := vh \<rparr>)\<lparr> velocityHistory := [] \<rparr>"
    by simp
  from run_ignores_velocityHistory[OF this, of evs] obtain a b where
    ab: "run evs s = Inr a" "run evs (s\<lparr> velocityHistory := vh \<rparr>) = Inr b"
        "a\<lparr> velocityHistory := [] \<rparr> = b\<lparr> velocityHistory := [] \<rparr>"
    by blast
  from ab(3) have "hitCount (a\<lparr> velocityHistory := [] \<rparr>) = hitCount (b\<lparr> velocityHistory := [] \<rparr>)"
    "lastHitTime (a\<lparr> velocityHistory := [] \<rparr>) = lastHitTime (b\<lparr> velocityHistory := [] \<rparr>)"
    by simp_all
  then have "hitCount a = hitCount b" "lastHitTime a = lastHitTime b" by simp_all
  with ab have part1: "\<exists>a b. run evs s = Inr a \<and> run evs (s\<lparr> velocityHistory := vh \<rparr>) = Inr b
       \<and> a\<lparr> velocityHistory := [] \<rparr> = b\<lparr> velocityHistory := [] \<rparr>
       \<and> hitCount a = hitCount b \<and> lastHitTime a = lastHitTime b"
    by blast
  have part2: "\<exists>a b. calculateVelocityAndDetectHit now s = Inr a
                 \<and> calculateVelocityAndDetectHit now s' = Inr b
                 \<and> (hitCount a = hitCount s + 1) = (hitCount b = hitCount s' + 1)
                 \<and> (hitCount a = hitCount s) = (hitCount b = hitCount s')
                 \<and> lastHitTime a = lastHitTime b"
    if l: "3 \<le> length (ballPositions s)" "3 \<le> length (ballPositions s')"
      and d: "drop (length (ballPositions s) - 3) (ballPositions s)
            = drop (length (ballPositions s') - 3) (ballPositions s')"
      and c: "directionChangeThreshold s = directionChangeThreshold s'"
        "velocityThreshold s = velocityThreshold s'"
        "sensitivity s = sensitivity s'"
        "minTimeBetweenHits s = minTimeBetweenHits s'"
        "lastHitTime s = lastHitTime s'"
  proof -
    have f: "spec_hit_fires now s = spec_hit_fires now s'"
      using last_three[OF l d] c by (simp add: spec_hit_fires_def Let_def)
    from detect_result[OF l(1), of now] obtain v1 where
      1: "calculateVelocityAndDetectHit now s =
           Inr (if spec_hit_fires now s
                then s\<lparr> velocityHistory := v1, hitCount := hitCount s + 1,
                        hitCounterText := hitCount s + 1, lastHitTime := now \<rparr>
                else s\<lparr> velocityHistory := v1 \<rparr>)" by blast
    from detect_result[OF l(2), of now] obtain v2 where
      2: "calculateVelocityAndDetectHit now s' =
           Inr (if spec_hit_fires now s'
                then s'\<lparr> velocityHistory := v2, hitCount := hitCount s' + 1,
                        hitCounterText := hitCount s' + 1, lastHitTime := now \<rparr>
                else s'\<lparr> velocityHistory := v2 \<rparr>)" by blast
    show ?thesis unfolding 1 2 using f c(5) by simp
  qed
  show ?thesis using part1 part2 by blast
qed

theorem velocityHistory_never_read_witness:
  "(\<exists>a b. run [Track \<lparr> px = 10, py = 0, confidence = 1 \<rparr> 100300 100300]
            ((constructor 0 [])\<lparr> ballPositions :=
               [\<lparr> px = 0, py = 0, confidence = 1, time = 100000 \<rparr>,
                \<lparr> px = 10, py = 0, confidence = 1, time = 100100 \<rparr>,
                \<lparr> px = 0, py = 0, confidence = 1, time = 100200 \<rparr>] \<rparr>) = Inr a
       \<and> run [Track \<lparr> px = 10, py = 0, confidence = 1 \<rparr> 100300 100300]
            ((constructor 0 [])\<lparr> ballPositions :=
               [\<lparr> px = 0, py = 0, confidence = 1, time = 100000 \<rparr>,
                \<lparr> px = 10, py = 0, confidence = 1, time = 100100 \<rparr>,
                \<lparr> px = 0, py = 0, confidence = 1, time = 100200 \<rparr>],
               velocityHistory := [\<lparr> px = 7, py = 7, magnitude = 7 \<rparr>] \<rparr>) = Inr b
       \<and> hitCount a = hitCount b \<and> lastHitTime a = lastHitTime b)
   \<and> (\<exists>a b. calculateVelocityAndDetectHit 100300
            ((constructor 0 [])\<lparr> ballPositions :=
               [\<lparr> px = 0, py = 0, confidence = 1, time = 100000 \<rparr>,
                \<lparr> px = 10, py = 0, confidence = 1, time = 100100 \<rparr>,
                \<lparr> px = 0, py = 0, confidence = 1, time = 100200 \<rparr>] \<rparr>) = Inr a
       \<and> calculateVelocityAndDetectHit 100300
            ((constructor 5 [])\<lparr> hitCount := 5, ballPositions :=
               [\<lparr> px = 3, py = 4, confidence = 1, time = 99900 \<rparr>,
                \<lparr> px = 0, py = 0, confidence = 1, time = 100000 \<rparr>,
                \<lparr> px = 10, py = 0, confidence = 1, time = 100100 \<rparr>,
                \<lparr> px = 0, py = 0, confidence = 1, time = 100200 \<rparr>],
               velocityHistory := [\<lparr> px = 7, py = 7, magnitude = 7 \<rparr>] \<rparr>) = Inr b
       \<and> (hitCount a = 1) = (hitCount b = 6)
       \<and> lastHitTime a = lastHitTime b)"
proof -
  define S where "S = (constructor 0 [])\<lparr> ballPositions :=
               [\<lparr> px = 0, py = 0, confidence = 1, time = 100000 \<rparr>,
                \<lparr> px = 10, py = 0, confidence = 1, time = 100100 \<rparr>,
                \<lparr> px = 0, py = 0, confidence = 1, time = 100200 \<rparr>] \<rparr>"
  define S' where "S' = (constructor 5 [])\<lparr> hitCount := 5, ballPositions :=
               [\<lparr> px = 3, py = 4, confidence = 1, time = 99900 \<rparr>,
                \<lparr> px = 0, py = 0, confidence = 1, time = 100000 \<rparr>,
                \<lparr> px = 10, py = 0, confidence = 1, time = 100100 \<rparr>,
                \<lparr> px = 0, py = 0, confidence = 1, time = 100200 \<rparr>],
               velocityHistory := [\<lparr> px = 7, py = 7, magnitude = 7 \<rparr>] \<rparr>"
  define evs where "evs = [Track \<lparr> px = 10, py = 0, confidence = 1 \<rparr> 100300 100300]"
  define vh where "vh = [\<lparr> px = 7, py = 7, magnitude = (7::real) \<rparr>]"
  have hyp: "3 \<le> length (ballPositions S) \<and> 3 \<le> length (ballPositions S')
        \<and> drop (length (ballPositions S) - 3) (ballPositions S)
            = drop (length (ballPositions S') - 3) (ballPositions S')
        \<and> directionChangeThreshold S = directionChangeThreshold S'
        \<and> velocityThreshold S = velocityThreshold S'
        \<and> sensitivity S = sensitivity S'
        \<and> minTimeBetweenHits S = minTimeBetweenHits S'
        \<and> lastHitTime S = lastHitTime S'"
    by (simp add: S_def S'_def constructor_def)
  have counts: "hitCount S = 0" "hitCount S' = 5"
    by (simp_all add: S_def S'_def constructor_def)
  from velocityHistory_never_read[of evs S vh S' 100300] hyp
  have 1: "\<exists>a b. run evs S = Inr a \<and> run evs (S\<lparr> velocityHistory := vh \<rparr>) = Inr b
       \<and> hitCount a = hitCount b \<and> lastHitTime a = lastHitTime b"
    and 2: "\<exists>a b. calculateVelocityAndDetectHit 100300 S = Inr a
                 \<and> calculateVelocityAndDetectHit 100300 S' = Inr b
                 \<and> (hitCount a = hitCount S + 1) = (hitCount b = hitCount S' + 1)
                 \<and> lastHitTime a = lastHitTime b"
    by blast+
  from 2 have 3: "\<exists>a b. calculateVelocityAndDetectHit 100300 S = Inr a
                 \<and> calculateVelocityAndDetectHit 100300 S' = Inr b
                 \<and> (hitCount a = 1) = (hitCount b = 6)
                 \<and> lastHitTime a = lastHitTime b"
    by (simp add: counts)
  show ?thesis using 1 3 unfolding S_def S'_def evs_def vh_def by simp
qed

subsection \<open>The two windows\<close>

lemma fifo_step:
  "length w \<le> m \<Longrightarrow>
   (if length (w @ [x]) > m then tl (w @ [x]) else w @ [x])
     = drop (length (w @ [x]) - m) (w @ [x])"
proof (cases "length w = m")
  case True
  then have k: "length (w @ [x]) - m = Suc 0" and g: "length (w @ [x]) > m" by simp_all
  have "drop (Suc 0) (w @ [x]) = tl (w @ [x])" by (simp only: drop_Suc drop_0)
  then show ?thesis unfolding k using g by simp
next
  case False
  assume "length w \<le> m"
  with False have "length (w @ [x]) \<le> m" by simp
  then show ?thesis by simp
qed

lemma fifo_step_length:
  "length w \<le> m \<Longrightarrow> length (if length (w @ [x]) > m then tl (w @ [x]) else w @ [x]) \<le> m"
  by simp

lemma drop_window:
  assumes "length F \<le> m + 1"
  shows "drop (length (drop (length F - m) F @ R) - m) (drop (length F - m) F @ R)
           = drop (length (F @ R) - m) (F @ R)"
proof (cases "length F \<le> m")
  case True
  then show ?thesis by simp
next
  case False
  with assms have l: "length F = m + 1" by simp
  then have "length F - m = 1" by simp
  moreover have "length (drop 1 F @ R) - m = length R" using l by simp
  moreover have "length (F @ R) - m = length R + 1" using l by simp
  ultimately show ?thesis using l by simp
qed

lemma pushPosition_window:
  "ballPositions (pushPosition p t s) =
     (if length (ballPositions s @ [stored (p, t, now)]) > maxPositionHistory s
      then tl (ballPositions s @ [stored (p, t, now)])
      else ballPositions s @ [stored (p, t, now)])"
  by (simp add: pushPosition_def stored_def Let_def)

lemma detect_window:
  assumes "3 \<le> length (ballPositions s)"
  shows "\<exists>s'. calculateVelocityAndDetectHit now s = Inr s'
     \<and> ballPositions s' = ballPositions s
     \<and> maxPositionHistory s' = maxPositionHistory s
     \<and> velocityHistory s' =
         (let v = calculateVelocity (ballPositions s ! (length (ballPositions s) - 2))
                    (ballPositions s ! (length (ballPositions s) - 1));
              w = velocityHistory s @ [v]
          in if length w > 5 then tl w else w)"
  using assms
  by (auto simp add: calculateVelocityAndDetectHit_def registerHit_def Let_def)

lemma track_window:
  "\<exists>s'. updateBallTracking p t now s = Inr s'
     \<and> ballPositions s' = ballPositions (pushPosition p t s)
     \<and> maxPositionHistory s' = maxPositionHistory s
     \<and> (length (velocityHistory s) \<le> 5 \<longrightarrow> length (velocityHistory s') \<le> 5)"
proof (cases "3 \<le> length (ballPositions (pushPosition p t s))")
  case True
  from detect_window[OF True, of now] obtain s' where
    d: "calculateVelocityAndDetectHit now (pushPosition p t s) = Inr s'"
       "ballPositions s' = ballPositions (pushPosition p t s)"
       "maxPositionHistory s' = maxPositionHistory s"
       "velocityHistory s' =
         (let v = calculateVelocity
                    (ballPositions (pushPosition p t s) ! (length (ballPositions (pushPosition p t s)) - 2))
                    (ballPositions (pushPosition p t s) ! (length (ballPositions (pushPosition p t s)) - 1));
              w = velocityHistory s @ [v]
          in if length w > 5 then tl w else w)"
    by auto
  have "length (velocityHistory s) \<le> 5 \<longrightarrow> length (velocityHistory s') \<le> 5"
    unfolding d(4) by (simp add: Let_def)
  then show ?thesis using True d by (simp add: updateBallTracking_def Let_def)
next
  case False
  then show ?thesis by (simp add: updateBallTracking_def Let_def)
qed

lemma run_window_bounded:
  assumes "length (ballPositions s) \<le> maxPositionHistory s" "length (velocityHistory s) \<le> 5"
  shows "\<exists>s'. run evs s = Inr s' \<and> maxPositionHistory s' = maxPositionHistory s
           \<and> length (ballPositions s') \<le> maxPositionHistory s
           \<and> length (velocityHistory s') \<le> 5"
  using assms
proof (induction evs arbitrary: s)
  case Nil
  then show ?case by simp
next
  case (Cons e evs)
  show ?case
  proof (cases e)
    case (Track p t now)
    from track_window[of p t now s] obtain s1 where
      s1: "updateBallTracking p t now s = Inr s1"
          "ballPositions s1 = ballPositions (pushPosition p t s)"
          "maxPositionHistory s1 = maxPositionHistory s"
          "length (velocityHistory s1) \<le> 5"
      using Cons.prems by blast
    have "length (ballPositions s1) \<le> maxPositionHistory s1"
      unfolding s1(2) s1(3) pushPosition_window[of p t s now]
      using Cons.prems(1) by (rule fifo_step_length)
    from Cons.IH[OF this s1(4)] show ?thesis using s1 Track by simp
  next
    case ResetCounter
    have "length (ballPositions (resetCounter s)) \<le> maxPositionHistory (resetCounter s)"
      "length (velocityHistory (resetCounter s)) \<le> 5"
      by (simp_all add: resetCounter_def)
    from Cons.IH[OF this] show ?thesis using ResetCounter by (simp add: resetCounter_def)
  next
    case (Sensitivity v)
    have "length (ballPositions (s\<lparr> sensitivity := v \<rparr>)) \<le> maxPositionHistory (s\<lparr> sensitivity := v \<rparr>)"
      "length (velocityHistory (s\<lparr> sensitivity := v \<rparr>)) \<le> 5"
      using Cons.prems by simp_all
    from Cons.IH[OF this] show ?thesis using Sensitivity by simp
  qed
qed

lemma tracks_window:
  assumes "length (ballPositions s) \<le> maxPositionHistory s"
  shows "\<exists>s'. run (tracks ts) s = Inr s'
           \<and> ballPositions s' =
               drop (length (ballPositions s @ map stored ts) - maxPositionHistory s)
                 (ballPositions s @ map stored ts)"
  using assms
proof (induction ts arbitrary: s)
  case Nil
  then show ?case by (simp add: tracks_def)
next
  case (Cons e ts)
  obtain p t now where e: "e = (p, t, now)" by (cases e) auto
  define m where "m = maxPositionHistory s"
  define F where "F = ballPositions s @ [stored (p, t, now)]"
  have lF: "length F \<le> m + 1" using Cons.prems by (simp add: F_def m_def)
  from track_window[of p t now s] obtain s1 where
    s1: "updateBallTracking p t now s = Inr s1"
        "ballPositions s1 = ballPositions (pushPosition p t s)"
        "maxPositionHistory s1 = m"
    unfolding m_def by blast
  have w1: "ballPositions s1 = drop (length F - m) F"
    unfolding s1(2) pushPosition_window[of p t s now] F_def m_def
    using Cons.prems by (rule fifo_step)
  have "length (ballPositions s1) \<le> maxPositionHistory s1"
    unfolding w1 s1(3) using lF by simp
  from Cons.IH[OF this] obtain s' where
    s': "run (tracks ts) s1 = Inr s'"
        "ballPositions s' =
           drop (length (ballPositions s1 @ map stored ts) - m) (ballPositions s1 @ map stored ts)"
    unfolding s1(3) by blast
  have "ballPositions s' = drop (length (F @ map stored ts) - m) (F @ map stored ts)"
    unfolding s'(2) w1 using lF by (rule drop_window)
  moreover have "F @ map stored ts = ballPositions s @ map stored (e # ts)"
    by (simp add: F_def e)
  moreover have "run (tracks (e # ts)) s = run (tracks ts) s1"
    using s1(1) by (simp add: tracks_def e)
  ultimately show ?case using s'(1) unfolding m_def by simp
qed

text \<open>
  Claim C8, as amended. After every push the position history holds at most 10 and the
  velocity history at most 5 entries, in every run from the constructor's state. The
  windows are first-in first-out: after any number of detected balls the position
  history is the last \<open>maxPositionHistory\<close> entries of what it held followed by the
  pushed entries, in the order of arrival, and one detection step leaves the last five
  of the velocity history followed by the new velocity. The stored timestamps are the
  clock readings of the pushes: they are strictly increasing whenever those readings
  (with the ones already stored) are, and the code does nothing to make them so.
\<close>

theorem window_bounded_fifo:
  "(\<exists>s. run evs (constructor counterText status) = Inr s
        \<and> length (ballPositions s) \<le> 10 \<and> length (velocityHistory s) \<le> 5)
   \<and> (length (ballPositions s0) \<le> maxPositionHistory s0 \<longrightarrow>
        (\<exists>s. run (tracks ts) s0 = Inr s
           \<and> ballPositions s =
               drop (length (ballPositions s0 @ map stored ts) - maxPositionHistory s0)
                 (ballPositions s0 @ map stored ts)
           \<and> length (ballPositions s) \<le> maxPositionHistory s0
           \<and> (sorted_wrt (<) (map time (ballPositions s0 @ map stored ts)) \<longrightarrow>
                sorted_wrt (<) (map time (ballPositions s)))))
   \<and> (3 \<le> length (ballPositions s1) \<and> length (velocityHistory s1) \<le> 5 \<longrightarrow>
        (\<exists>s. calculateVelocityAndDetectHit now s1 = Inr s
           \<and> velocityHistory s =
               drop (length (velocityHistory s1) + 1 - 5)
                 (velocityHistory s1 @
                    [calculateVelocity (ballPositions s1 ! (length (ballPositions s1) - 2))
                       (ballPositions s1 ! (length (ballPositions s1) - 1))])
           \<and> length (velocityHistory s) \<le> 5))"
proof -
  have "length (ballPositions (constructor counterText status))
          \<le> maxPositionHistory (constructor counterText status)"
    "length (velocityHistory (constructor counterText status)) \<le> 5"
    by (simp_all add: constructor_def)
  from run_window_bounded[OF this, of evs]
  have part1: "\<exists>s. run evs (constructor counterText status) = Inr s
        \<and> length (ballPositions s) \<le> 10 \<and> length (velocityHistory s) \<le> 5"
    by (auto simp add: constructor_def)
  have part2: "\<exists>s. run (tracks ts) s0 = Inr s
           \<and> ballPositions s =
               drop (length (ballPositions s0 @ map stored ts) - maxPositionHistory s0)
                 (ballPositions s0 @ map stored ts)
           \<and> length (ballPositions s) \<le> maxPositionHistory s0
           \<and> (sorted_wrt (<) (map time (ballPositions s0 @ map stored ts)) \<longrightarrow>
                sorted_wrt (<) (map time (ballPositions s)))"
    if inv: "length (ballPositions s0) \<le> maxPositionHistory s0"
  proof -
    from tracks_window[OF inv, of ts] obtain s where
      s: "run (tracks ts) s0 = Inr s"
         "ballPositions s =
               drop (length (ballPositions s0 @ map stored ts) - maxPositionHistory s0)
                 (ballPositions s0 @ map stored ts)"
      by blast
    have len: "length (ballPositions s) \<le> maxPositionHistory s0"
      unfolding s(2) by simp
    have srt: "sorted_wrt (<) (map time (ballPositions s))"
      if "sorted_wrt (<) (map time (ballPositions s0 @ map stored ts))"
      unfolding s(2) drop_map[symmetric] using that by (rule sorted_wrt_drop)
    show ?thesis using s len srt by blast
  qed
  have part3: "\<exists>s. calculateVelocityAndDetectHit now s1 = Inr s
           \<and> velocityHistory s =
               drop (length (velocityHistory s1) + 1 - 5)
                 (velocityHistory s1 @
                    [calculateVelocity (ballPositions s1 ! (length (ballPositions s1) - 2))
                       (ballPositions s1 ! (length (ballPositions s1) - 1))])
           \<and> length (velocityHistory s) \<le> 5"
    if three: "3 \<le> length (ballPositions s1)" and five: "length (velocityHistory s1) \<le> 5"
  proof -
    define v where "v = calculateVelocity (ballPositions s1 ! (length (ballPositions s1) - 2))
                       (ballPositions s1 ! (length (ballPositions s1) - 1))"
    from detect_window[OF three, of now] obtain s where
      s: "calculateVelocityAndDetectHit now s1 = Inr s"
         "velocityHistory s =
            (if length (velocityHistory s1 @ [v]) > 5 then tl (velocityHistory s1 @ [v])
             else velocityHistory s1 @ [v])"
      unfolding v_def by (auto simp add: Let_def)
    have "velocityHistory s = drop (length (velocityHistory s1 @ [v]) - 5) (velocityHistory s1 @ [v])"
      unfolding s(2) using five by (rule fifo_step)
    moreover have "length (velocityHistory s) \<le> 5"
      unfolding s(2) using five by (rule fifo_step_length)
    ultimately show ?thesis using s(1) unfolding v_def by simp
  qed
  show ?thesis using part1 part2 part3 by blast
qed

text \<open>An instance: three stored samples, a fourth pushed, increasing clock readings.\<close>

theorem window_bounded_fifo_witness:
  "(\<exists>s. run [Track \<lparr> px = 10, py = 0, confidence = 1 \<rparr> 100000 100000, ResetCounter,
               Track \<lparr> px = 12, py = 0, confidence = 1 \<rparr> 100100 100100]
          (constructor 0 []) = Inr s
        \<and> length (ballPositions s) \<le> 10 \<and> length (velocityHistory s) \<le> 5)
   \<and> (\<exists>s. run (tracks [(\<lparr> px = 10, py = 0, confidence = 1 \<rparr>, 100300, 100300)])
          ((constructor 0 [])\<lparr> ballPositions :=
             [\<lparr> px = 0, py = 0, confidence = 1, time = 100000 \<rparr>,
              \<lparr> px = 10, py = 0, confidence = 1, time = 100100 \<rparr>,
              \<lparr> px = 0, py = 0, confidence = 1, time = 100200 \<rparr>] \<rparr>) = Inr s
        \<and> ballPositions s =
             [\<lparr> px = 0, py = 0, confidence = 1, time = 100000 \<rparr>,
              \<lparr> px = 10, py = 0, confidence = 1, time = 100100 \<rparr>,
              \<lparr> px = 0, py = 0, confidence = 1, time = 100200 \<rparr>,
              \<lparr> px = 10, py = 0, confidence = 1, time = 100300 \<rparr>]
        \<and> sorted_wrt (<) (map time (ballPositions s)))
   \<and> (\<exists>s. calculateVelocityAndDetectHit 100300
          ((constructor 0 [])\<lparr> ballPositions :=
             [\<lparr> px = 0, py = 0, confidence = 1, time = 100000 \<rparr>,
              \<lparr> px = 10, py = 0, confidence = 1, time = 100100 \<rparr>,
              \<lparr> px = 0, py = 0, confidence = 1, time = 100200 \<rparr>] \<rparr>) = Inr s
        \<and> velocityHistory s = [\<lparr> px = - 100, py = 0, magnitude = 100 \<rparr>]
        \<and> length (velocityHistory s) \<le> 5)"
proof -
  define S where "S = (constructor 0 [])\<lparr> ballPositions :=
             [\<lparr> px = 0, py = 0, confidence = 1, time = 100000 \<rparr>,
              \<lparr> px = 10, py = 0, confidence = 1, time = 100100 \<rparr>,
              \<lparr> px = 0, py = 0, confidence = 1, time = 100200 \<rparr>] \<rparr>"
  define evs where "evs = [Track \<lparr> px = 10, py = 0, confidence = 1 \<rparr> 100000 100000, ResetCounter,
               Track \<lparr> px = 12, py = 0, confidence = 1 \<rparr> 100100 100100]"
  define ts where "ts = [(\<lparr> px = 10, py = 0, confidence = (1::real) \<rparr>, 100300::real, 100300::real)]"
  have bp: "ballPositions S =
             [\<lparr> px = 0, py = 0, confidence = 1, time = 100000 \<rparr>,
              \<lparr> px = 10, py = 0, confidence = 1, time = 100100 \<rparr>,
              \<lparr> px = 0, py = 0, confidence = 1, time = 100200 \<rparr>]"
    and cfg: "maxPositionHistory S = 10" "velocityHistory S = []"
    by (simp_all add: S_def constructor_def)
  have h2: "length (ballPositions S) \<le> maxPositionHistory S" by (simp add: bp cfg)
  have full: "ballPositions S @ map stored ts =
             [\<lparr> px = 0, py = 0, confidence = 1, time = 100000 \<rparr>,
              \<lparr> px = 10, py = 0, confidence = 1, time = 100100 \<rparr>,
              \<lparr> px = 0, py = 0, confidence = 1, time = 100200 \<rparr>,
              \<lparr> px = 10, py = 0, confidence = 1, time = 100300 \<rparr>]"
    by (simp add: bp ts_def stored_def)
  have h2': "sorted_wrt (<) (map time (ballPositions S @ map stored ts))"
    unfolding full by simp
  have h3: "3 \<le> length (ballPositions S) \<and> length (velocityHistory S) \<le> 5"
    by (simp add: bp cfg)
  have v: "calculateVelocity (ballPositions S ! (length (ballPositions S) - 2))
             (ballPositions S ! (length (ballPositions S) - 1))
           = \<lparr> px = - 100, py = 0, magnitude = 100 \<rparr>"
    by (simp add: bp calculateVelocity_def Let_def)
  from window_bounded_fifo[of evs 0 "[]" S ts S 100300] h2 h2' h3
  have 1: "\<exists>s. run evs (constructor 0 []) = Inr s
        \<and> length (ballPositions s) \<le> 10 \<and> length (velocityHistory s) \<le> 5"
    and 2: "\<exists>s. run (tracks ts) S = Inr s
           \<and> ballPositions s =
               drop (length (ballPositions S @ map stored ts) - maxPositionHistory S)
                 (ballPositions S @ map stored ts)
           \<and> sorted_wrt (<) (map time (ballPositions s))"
    and 3: "\<exists>s. calculateVelocityAndDetectHit 100300 S = Inr s
           \<and> velocityHistory s =
               drop (length (velocityHistory S) + 1 - 5)
                 (velocityHistory S @
                    [calculateVelocity (ballPositions S ! (length (ballPositions S) - 2))
                       (ballPositions S ! (length (ballPositions S) - 1))])
           \<and> length (velocityHistory s) \<le> 5"
    by blast+
  have r2: "\<exists>s. run (tracks ts) S = Inr s
        \<and> ballPositions s =
             [\<lparr> px = 0, py = 0, confidence = 1, time = 100000 \<rparr>,
              \<lparr> px = 10, py = 0, confidence = 1, time = 100100 \<rparr>,
              \<lparr> px = 0, py = 0, confidence = 1, time = 100200 \<rparr>,
              \<lparr> px = 10, py = 0, confidence = 1, time = 100300 \<rparr>]
        \<and> sorted_wrt (<) (map time (ballPositions s))"
    using 2 unfolding full cfg by simp
  have r3: "\<exists>s. calculateVelocityAndDetectHit 100300 S = Inr s
        \<and> velocityHistory s = [\<lparr> px = - 100, py = 0, magnitude = 100 \<rparr>]
        \<and> length (velocityHistory s) \<le> 5"
    using 3 unfolding v cfg by simp
  show ?thesis using 1 r2 r3 unfolding S_def evs_def ts_def by blast
qed

text \<open>
  Claim C8 as stated fails: two balls detected at the same clock reading are both
  stored, and the window then holds two samples with equal timestamps.
\<close>

theorem timestamps_not_strictly_increasing_counterexample:
  "run [Track \<lparr> px = 10, py = 0, confidence = 1 \<rparr> 100000 100000,
        Track \<lparr> px = 12, py = 0, confidence = 1 \<rparr> 100000 100000] (constructor 0 [])
     = Inr ((constructor 0 [])\<lparr> ballPositions :=
              [\<lparr> px = 10, py = 0, confidence = 1, time = 100000 \<rparr>,
               \<lparr> px = 12, py = 0, confidence = 1, time = 100000 \<rparr>],
              lastBallPosition := Some \<lparr> px = 12, py = 0, confidence = 1 \<rparr> \<rparr>)
   \<and> \<not> sorted_wrt (<)
       (map time
         (ballPositions ((constructor 0 [])\<lparr> ballPositions :=
              [\<lparr> px = 10, py = 0, confidence = 1, time = 100000 \<rparr>,
               \<lparr> px = 12, py = 0, confidence = 1, time = 100000 \<rparr>],
              lastBallPosition := Some \<lparr> px = 12, py = 0, confidence = 1 \<rparr> \<rparr>)))"
  by (simp add: updateBallTracking_def pushPosition_def constructor_def Let_def)

subsection \<open>The two scripts at load\<close>



subsection \<open>One frame of the first revision\<close>

lemma has_armE:
  assumes "has_arm r"
  obtains lms sh el wr where "r = Some lms" "shoulder lms = Some sh" "elbow lms = Some el"
    "wrist lms = Some wr"
  using assms by (auto simp add: has_arm_def split: option.splits)

lemma onResults1_no_arm: "\<not> has_arm r \<Longrightarrow> onResults1 r s = s"
  by (auto simp add: has_arm_def onResults1_def split: option.splits)

text \<open>A stretched arm along the x axis has a joint angle of 180 degrees.\<close>

lemma calculateAngle_straight:
  assumes "py a = py b" "py c = py b" "px a < px b" "px b < px c"
  shows "calculateAngle a b c = 180"
proof -
  have "atan2 (py c - py b) (px c - px b) = 0" using assms by (simp add: atan2_def)
  moreover have "atan2 (py a - py b) (px a - px b) = pi" using assms by (simp add: atan2_def)
  ultimately show ?thesis by (simp add: calculateAngle_def Let_def)
qed

text \<open>One frame, state by state.\<close>

lemma ready_step:
  assumes "state s = READY"
  shows "state (onResults1 r s) =
     (if has_arm r \<and> wristVelocityX r s > 3 / 100 \<and> 
         (\<exists>lms sh el wr. r = Some lms \<and> shoulder lms = Some sh \<and> elbow lms = Some el
             \<and> wrist lms = Some wr \<and> calculateAngle sh el wr > 100)
      then THROWING else READY)"
    and "repCount (onResults1 r s) = repCount s"
proof -
  show "state (onResults1 r s) =
     (if has_arm r \<and> wristVelocityX r s > 3 / 100 \<and> 
         (\<exists>lms sh el wr. r = Some lms \<and> shoulder lms = Some sh \<and> elbow lms = Some el
             \<and> wrist lms = Some wr \<and> calculateAngle sh el wr > 100)
      then THROWING else READY)"
  proof (cases "has_arm r")
    case True
    then obtain lms sh el wr where "r = Some lms" "shoulder lms = Some sh"
      "elbow lms = Some el" "wrist lms = Some wr" by (rule has_armE)
    then show ?thesis using assms True
      by (cases "lastHandPos s") (simp_all add: onResults1_def wristVelocityX_def Let_def)
  next
    case False
    then show ?thesis using assms by (simp add: onResults1_no_arm)
  qed
  show "repCount (onResults1 r s) = repCount s"
  proof (cases "has_arm r")
    case True
    then obtain lms sh el wr where "r = Some lms" "shoulder lms = Some sh"
      "elbow lms = Some el" "wrist lms = Some wr" by (rule has_armE)
    then show ?thesis using assms by (simp add: onResults1_def Let_def)
  next
    case False
    then show ?thesis by (simp add: onResults1_no_arm)
  qed
qed

lemma throwing_step:
  assumes "state s = THROWING"
  shows "state (onResults1 r s) =
     (if has_arm r \<and> wristVelocityX r s < - (3 / 100) then CATCHING else THROWING)"
    and "repCount (onResults1 r s) = repCount s"
proof -
  show "state (onResults1 r s) =
     (if has_arm r \<and> wristVelocityX r s < - (3 / 100) then CATCHING else THROWING)"
  proof (cases "has_arm r")
    case True
    then obtain lms sh el wr where "r = Some lms" "shoulder lms = Some sh"
      "elbow lms = Some el" "wrist lms = Some wr" by (rule has_armE)
    then show ?thesis using assms True
      by (cases "lastHandPos s") (simp_all add: onResults1_def wristVelocityX_def Let_def)
  next
    case False
    then show ?thesis using assms by (simp add: onResults1_no_arm)
  qed
  show "repCount (onResults1 r s) = repCount s"
  proof (cases "has_arm r")
    case True
    then obtain lms sh el wr where "r = Some lms" "shoulder lms = Some sh"
      "elbow lms = Some el" "wrist lms = Some wr" by (rule has_armE)
    then show ?thesis using assms by (simp add: onResults1_def Let_def)
  next
    case False
    then show ?thesis by (simp add: onResults1_no_arm)
  qed
qed

lemma catching_step:
  assumes "state s = CATCHING"
  shows "state (onResults1 r s) =
     (if has_arm r \<and> near_anchor (2 / 10) r then READY else CATCHING)"
    and "repCount (onResults1 r s) =
     (if has_arm r \<and> near_anchor (2 / 10) r then repCount s + 1 else repCount s)"
    and "repCounterText (onResults1 r s) =
     (if has_arm r \<and> near_anchor (2 / 10) r then repCount s + 1 else repCounterText s)"
proof -
  have "state (onResults1 r s) =
     (if has_arm r \<and> near_anchor (2 / 10) r then READY else CATCHING)
    \<and> repCount (onResults1 r s) =
     (if has_arm r \<and> near_anchor (2 / 10) r then repCount s + 1 else repCount s)
    \<and> repCounterText (onResults1 r s) =
     (if has_arm r \<and> near_anchor (2 / 10) r then repCount s + 1 else repCounterText s)"
  proof (cases "has_arm r")
    case True
    then obtain lms sh el wr where "r = Some lms" "shoulder lms = Some sh"
      "elbow lms = Some el" "wrist lms = Some wr" by (rule has_armE)
    then show ?thesis using assms True
      by (simp add: onResults1_def near_anchor_def Let_def)
  next
    case False
    then show ?thesis using assms by (simp add: onResults1_no_arm)
  qed
  then show "state (onResults1 r s) =
     (if has_arm r \<and> near_anchor (2 / 10) r then READY else CATCHING)"
    and "repCount (onResults1 r s) =
     (if has_arm r \<and> near_anchor (2 / 10) r then repCount s + 1 else repCount s)"
    and "repCounterText (onResults1 r s) =
     (if has_arm r \<and> near_anchor (2 / 10) r then repCount s + 1 else repCounterText s)"
    by blast+
qed

subsection \<open>The first sample\<close>






subsection \<open>The first revision has no timeout\<close>

text \<open>A state other than \<open>READY\<close> persists over a run of frames.\<close>

lemma throwing_persists:
  assumes "state s = THROWING" "never_reverses rs s"
  shows "state (run1 rs s) = THROWING"
  using assms
proof (induction rs arbitrary: s)
  case Nil
  then show ?case by simp
next
  case (Cons r rs)
  from Cons.prems have n: "\<not> (has_arm r \<and> wristVelocityX r s < - (3 / 100))"
    and rest: "never_reverses rs (onResults1 r s)" by simp_all
  have "state (onResults1 r s) = THROWING"
    using throwing_step(1)[OF Cons.prems(1), of r] n by simp
  from Cons.IH[OF this rest] show ?case by simp
qed

lemma catching_persists:
  assumes "state s = CATCHING" "\<forall>f \<in> set rs. \<not> near_anchor (2 / 10) f"
  shows "state (run1 rs s) = CATCHING"
  using assms
proof (induction rs arbitrary: s)
  case Nil
  then show ?case by simp
next
  case (Cons r rs)
  from Cons.prems have n: "\<not> near_anchor (2 / 10) r"
    and rest: "\<forall>f \<in> set rs. \<not> near_anchor (2 / 10) f" by simp_all
  have "state (onResults1 r s) = CATCHING"
    using catching_step(1)[OF Cons.prems(1), of r] n by simp
  from Cons.IH[OF this rest] show ?case by simp
qed

text \<open>
  Claim C3, as amended. The first revision reads no clock and has no timeout: a frame
  changes a state other than \<open>READY\<close> only by that state's own transition predicate.
  \<open>THROWING\<close> goes to \<open>CATCHING\<close> exactly on a frame with the three landmarks whose
  wrist moves back faster than the throw threshold, and stays \<open>THROWING\<close> otherwise;
  \<open>CATCHING\<close> goes to \<open>READY\<close> exactly on a frame with the three landmarks whose wrist
  is within 0.2 of the shoulder, and stays \<open>CATCHING\<close> otherwise. Over any run of
  frames, however far apart in time, \<open>THROWING\<close> persists while no frame moves the
  wrist back and \<open>CATCHING\<close> persists while no frame is near the shoulder. The state
  is a function of the frames alone: it changes only while a frame is processed.
\<close>

theorem first_revision_state_persists:
  "(state s = THROWING \<longrightarrow>
      state (onResults1 r s) =
        (if has_arm r \<and> wristVelocityX r s < - (3 / 100) then CATCHING else THROWING))
   \<and> (state s = CATCHING \<longrightarrow>
      state (onResults1 r s) =
        (if has_arm r \<and> near_anchor (2 / 10) r then READY else CATCHING))
   \<and> (state s = THROWING \<and> never_reverses rs s \<longrightarrow> state (run1 rs s) = THROWING)
   \<and> (state s = CATCHING \<and> (\<forall>f \<in> set rs. \<not> near_anchor (2 / 10) f) \<longrightarrow>
        state (run1 rs s) = CATCHING)"
  using throwing_step(1)[of s r] catching_step(1)[of s r] throwing_persists[of s rs]
    catching_persists[of s rs]
  by blast

text \<open>
  An instance: two frames with the wrist resting or moving on met in \<open>THROWING\<close>, and
  two frames with the wrist away from the shoulder met in \<open>CATCHING\<close>.
\<close>

theorem first_revision_state_persists_witness:
  "state ((loaded1 0)\<lparr> state := THROWING, lastHandPos := Some \<lparr> px = 6 / 10, py = 5 / 10 \<rparr> \<rparr>)
     = THROWING
   \<and> state (onResults1
         (Some \<lparr> shoulder = Some \<lparr> px = 2 / 10, py = 5 / 10, pz = 0 \<rparr>,
                 elbow = Some \<lparr> px = 4 / 10, py = 5 / 10, pz = 0 \<rparr>,
                 wrist = Some \<lparr> px = 6 / 10, py = 5 / 10, pz = 0 \<rparr> \<rparr>)
         ((loaded1 0)\<lparr> state := THROWING,
            lastHandPos := Some \<lparr> px = 6 / 10, py = 5 / 10 \<rparr> \<rparr>)) = THROWING
   \<and> never_reverses
        [Some \<lparr> shoulder = Some \<lparr> px = 2 / 10, py = 5 / 10, pz = 0 \<rparr>,
                elbow = Some \<lparr> px = 4 / 10, py = 5 / 10, pz = 0 \<rparr>,
                wrist = Some \<lparr> px = 6 / 10, py = 5 / 10, pz = 0 \<rparr> \<rparr>,
         Some \<lparr> shoulder = Some \<lparr> px = 2 / 10, py = 5 / 10, pz = 0 \<rparr>,
                elbow = Some \<lparr> px = 4 / 10, py = 5 / 10, pz = 0 \<rparr>,
                wrist = Some \<lparr> px = 7 / 10, py = 5 / 10, pz = 0 \<rparr> \<rparr>]
        ((loaded1 0)\<lparr> state := THROWING, lastHandPos := Some \<lparr> px = 6 / 10, py = 5 / 10 \<rparr> \<rparr>)
   \<and> state (run1
        [Some \<lparr> shoulder = Some \<lparr> px = 2 / 10, py = 5 / 10, pz = 0 \<rparr>,
                elbow = Some \<lparr> px = 4 / 10, py = 5 / 10, pz = 0 \<rparr>,
                wrist = Some \<lparr> px = 6 / 10, py = 5 / 10, pz = 0 \<rparr> \<rparr>,
         Some \<lparr> shoulder = Some \<lparr> px = 2 / 10, py = 5 / 10, pz = 0 \<rparr>,
                elbow = Some \<lparr> px = 4 / 10, py = 5 / 10, pz = 0 \<rparr>,
                wrist = Some \<lparr> px = 7 / 10, py = 5 / 10, pz = 0 \<rparr> \<rparr>]
        ((loaded1 0)\<lparr> state := THROWING,
           lastHandPos := Some \<lparr> px = 6 / 10, py = 5 / 10 \<rparr> \<rparr>)) = THROWING
   \<and> state ((loaded1 0)\<lparr> state := CATCHING \<rparr>) = CATCHING
   \<and> \<not> near_anchor (2 / 10)
        (Some \<lparr> shoulder = Some \<lparr> px = 2 / 10, py = 5 / 10, pz = 0 \<rparr>,
                elbow = Some \<lparr> px = 4 / 10, py = 5 / 10, pz = 0 \<rparr>,
                wrist = Some \<lparr> px = 6 / 10, py = 5 / 10, pz = 0 \<rparr> \<rparr>)
   \<and> state (onResults1
         (Some \<lparr> shoulder = Some \<lparr> px = 2 / 10, py = 5 / 10, pz = 0 \<rparr>,
                 elbow = Some \<lparr> px = 4 / 10, py = 5 / 10, pz = 0 \<rparr>,
                 wrist = Some \<lparr> px = 6 / 10, py = 5 / 10, pz = 0 \<rparr> \<rparr>)
         ((loaded1 0)\<lparr> state := CATCHING \<rparr>)) = CATCHING
   \<and> state (run1
        [Some \<lparr> shoulder = Some \<lparr> px = 2 / 10, py = 5 / 10, pz = 0 \<rparr>,
                elbow = Some \<lparr> px = 4 / 10, py = 5 / 10, pz = 0 \<rparr>,
                wrist = Some \<lparr> px = 6 / 10, py = 5 / 10, pz = 0 \<rparr> \<rparr>,
         Some \<lparr> shoulder = Some \<lparr> px = 2 / 10, py = 5 / 10, pz = 0 \<rparr>,
                elbow = Some \<lparr> px = 4 / 10, py = 5 / 10, pz = 0 \<rparr>,
                wrist = Some \<lparr> px = 6 / 10, py = 5 / 10, pz = 0 \<rparr> \<rparr>]
        ((loaded1 0)\<lparr> state := CATCHING \<rparr>)) = CATCHING"
proof -
  define F where "F = Some \<lparr> shoulder = Some \<lparr> px = 2 / 10, py = 5 / 10, pz = (0::real) \<rparr>,
                elbow = Some \<lparr> px = 4 / 10, py = 5 / 10, pz = (0::real) \<rparr>,
                wrist = Some \<lparr> px = 6 / 10, py = 5 / 10, pz = (0::real) \<rparr> \<rparr>"
  define G where "G = Some \<lparr> shoulder = Some \<lparr> px = 2 / 10, py = 5 / 10, pz = (0::real) \<rparr>,
                elbow = Some \<lparr> px = 4 / 10, py = 5 / 10, pz = (0::real) \<rparr>,
                wrist = Some \<lparr> px = 7 / 10, py = 5 / 10, pz = (0::real) \<rparr> \<rparr>"
  define A where "A = (loaded1 0)\<lparr> state := THROWING,
           lastHandPos := Some \<lparr> px = 6 / 10, py = 5 / 10 \<rparr> \<rparr>"
  define B where "B = (loaded1 0)\<lparr> state := CATCHING \<rparr>"
  have a: "state A = THROWING" and b: "state B = CATCHING" by (simp_all add: A_def B_def)
  have arm: "has_arm F" by (simp add: has_arm_def F_def)
  have v: "wristVelocityX F A = 0" by (simp add: wristVelocityX_def F_def A_def)
  have far: "\<not> near_anchor (2 / 10) F"
  proof -
    have "((2::real) / 10)\<^sup>2 \<le> (6 / 10 - 2 / 10)\<^sup>2 + (5 / 10 - 5 / 10)\<^sup>2"
      by (simp add: power2_eq_square)
    then have "(2::real) / 10 \<le> sqrt ((6 / 10 - 2 / 10)\<^sup>2 + (5 / 10 - 5 / 10)\<^sup>2)"
      by (rule real_le_rsqrt)
    then have "\<not> sqrt ((6 / 10 - 2 / 10)\<^sup>2 + (5 / 10 - 5 / 10)\<^sup>2) < (2::real) / 10"
      by (simp only: not_less)
    then show ?thesis by (simp add: near_anchor_def F_def)
  qed
  have nr: "never_reverses [F, G] A"
    by (simp add: F_def G_def A_def wristVelocityX_def onResults1_def loaded1_def Let_def)
  have nn: "\<forall>f \<in> set [F, F]. \<not> near_anchor (2 / 10) f" using far by simp
  note T = first_revision_state_persists[of A F "[F, G]"]
  note U = first_revision_state_persists[of B F "[F, F]"]
  from T a have "state (onResults1 F A) =
        (if has_arm F \<and> wristVelocityX F A < - (3 / 100) then CATCHING else THROWING)"
    by blast
  then have t1: "state (onResults1 F A) = THROWING" using v by simp
  from T a nr have t2: "state (run1 [F, G] A) = THROWING" by blast
  from U b have "state (onResults1 F B) =
        (if has_arm F \<and> near_anchor (2 / 10) F then READY else CATCHING)"
    by blast
  then have u1: "state (onResults1 F B) = CATCHING" using far by simp
  from U b nn have u2: "state (run1 [F, F] B) = CATCHING" by blast
  show ?thesis using a t1 nr t2 b far u1 u2 unfolding F_def G_def A_def B_def by blast
qed

text \<open>
  Claim C3 as stated fails on the first revision: after two frames that start a throw,
  a third frame leaves the state \<open>THROWING\<close>, whatever time has passed before it (the
  function takes no clock reading).
\<close>

theorem first_revision_never_times_out_counterexample:
  "state (run1
     [Some \<lparr> shoulder = Some \<lparr> px = 2 / 10, py = 5 / 10, pz = 0 \<rparr>,
             elbow = Some \<lparr> px = 4 / 10, py = 5 / 10, pz = 0 \<rparr>,
             wrist = Some \<lparr> px = 5 / 10, py = 5 / 10, pz = 0 \<rparr> \<rparr>,
      Some \<lparr> shoulder = Some \<lparr> px = 2 / 10, py = 5 / 10, pz = 0 \<rparr>,
             elbow = Some \<lparr> px = 4 / 10, py = 5 / 10, pz = 0 \<rparr>,
             wrist = Some \<lparr> px = 6 / 10, py = 5 / 10, pz = 0 \<rparr> \<rparr>,
      Some \<lparr> shoulder = Some \<lparr> px = 2 / 10, py = 5 / 10, pz = 0 \<rparr>,
             elbow = Some \<lparr> px = 4 / 10, py = 5 / 10, pz = 0 \<rparr>,
             wrist = Some \<lparr> px = 6 / 10, py = 5 / 10, pz = 0 \<rparr> \<rparr>]
     (loaded1 0)) = THROWING"
  by (simp add: onResults1_def loaded1_def Let_def calculateAngle_straight)

subsection \<open>Completing a rep\<close>

lemma repCount_step:
  "repCount (onResults1 r s) =
     (if state s = CATCHING \<and> has_arm r \<and> near_anchor (2 / 10) r then repCount s + 1
      else repCount s)"
proof (cases "state s")
  case READY
  then show ?thesis using ready_step(2)[of s r] by simp
next
  case THROWING
  then show ?thesis using throwing_step(2)[of s r] by simp
next
  case CATCHING
  then show ?thesis using catching_step(2)[of s r] by simp
qed

lemma completed_rep_state:
  assumes "state s = CATCHING" "has_arm r" "near_anchor (2 / 10) r"
  shows "\<exists>p. onResults1 r s =
           \<lparr> repCount = repCount s + 1, state = READY, repCounterText = repCount s + 1,
             lastHandPos = Some p \<rparr>"
proof -
  from assms(2) obtain lms sh el wr where "r = Some lms" "shoulder lms = Some sh"
    "elbow lms = Some el" "wrist lms = Some wr" by (rule has_armE)
  then show ?thesis using assms(1,3)
    by (cases s) (simp add: onResults1_def near_anchor_def Let_def)
qed

lemma no_return_run1:
  assumes "\<forall>f \<in> set rs. \<not> near_anchor (2 / 10) f"
  shows "repCount (run1 rs s) = repCount s"
  using assms
proof (induction rs arbitrary: s)
  case Nil
  then show ?case by simp
next
  case (Cons r rs)
  then have "repCount (run1 rs (onResults1 r s)) = repCount (onResults1 r s)" by simp
  also have "\<dots> = repCount s" using Cons.prems by (simp add: repCount_step)
  finally show ?case by simp
qed

text \<open>
  Claim C2, as amended. In the first revision, a frame with the three landmarks met in
  \<open>CATCHING\<close> leads to \<open>READY\<close> exactly when the Euclidean distance from the wrist to
  the shoulder is below 0.2, and to \<open>CATCHING\<close> otherwise. A frame adds exactly one to
  the rep counter on this transition and nothing in every other case. The transition
  writes the counter, its text, the state and the stored hand position and nothing
  else: this revision keeps no duration list, no time of the last rep and no
  statistics. A run of frames none of which is near the shoulder leaves the rep counter
  as it was.
\<close>

theorem rep_completed_exactly_on_return:
  "(state s = CATCHING \<and> has_arm r \<longrightarrow>
      (state (onResults1 r s) = READY) = near_anchor (2 / 10) r
      \<and> (state (onResults1 r s) = READY \<or> state (onResults1 r s) = CATCHING))
   \<and> repCount (onResults1 r s) =
       (if state s = CATCHING \<and> has_arm r \<and> near_anchor (2 / 10) r then repCount s + 1
        else repCount s)
   \<and> (state s = CATCHING \<and> has_arm r \<and> near_anchor (2 / 10) r \<longrightarrow>
        (\<exists>p. onResults1 r s =
           \<lparr> repCount = repCount s + 1, state = READY, repCounterText = repCount s + 1,
             lastHandPos = Some p \<rparr>))
   \<and> ((\<forall>f \<in> set rs. \<not> near_anchor (2 / 10) f) \<longrightarrow> repCount (run1 rs s) = repCount s)"
proof -
  have A: "(state (onResults1 r s) = READY) = near_anchor (2 / 10) r
      \<and> (state (onResults1 r s) = READY \<or> state (onResults1 r s) = CATCHING)"
    if "state s = CATCHING" "has_arm r"
    using catching_step(1)[OF that(1), of r] that(2) by simp
  show ?thesis
    using A repCount_step[of r s] completed_rep_state[of s r] no_return_run1[of rs s]
    by blast
qed

text \<open>
  An instance: a fourth rep completed by a wrist at distance about 0.14 from the
  shoulder, and two frames with the wrist away from it.
\<close>

theorem rep_completed_exactly_on_return_witness:
  "state ((loaded1 0)\<lparr> state := CATCHING, repCount := 3 \<rparr>) = CATCHING
   \<and> has_arm (Some \<lparr> shoulder = Some \<lparr> px = 6 / 10, py = 3 / 10, pz = 0 \<rparr>,
                      elbow = Some \<lparr> px = 6 / 10, py = 5 / 10, pz = 0 \<rparr>,
                      wrist = Some \<lparr> px = 5 / 10, py = 4 / 10, pz = 0 \<rparr> \<rparr>)
   \<and> near_anchor (2 / 10)
        (Some \<lparr> shoulder = Some \<lparr> px = 6 / 10, py = 3 / 10, pz = 0 \<rparr>,
                elbow = Some \<lparr> px = 6 / 10, py = 5 / 10, pz = 0 \<rparr>,
                wrist = Some \<lparr> px = 5 / 10, py = 4 / 10, pz = 0 \<rparr> \<rparr>)
   \<and> state (onResults1
         (Some \<lparr> shoulder = Some \<lparr> px = 6 / 10, py = 3 / 10, pz = 0 \<rparr>,
                 elbow = Some \<lparr> px = 6 / 10, py = 5 / 10, pz = 0 \<rparr>,
                 wrist = Some \<lparr> px = 5 / 10, py = 4 / 10, pz = 0 \<rparr> \<rparr>)
         ((loaded1 0)\<lparr> state := CATCHING, repCount := 3 \<rparr>)) = READY
   \<and> repCount (onResults1
         (Some \<lparr> shoulder = Some \<lparr> px = 6 / 10, py = 3 / 10, pz = 0 \<rparr>,
                 elbow = Some \<lparr> px = 6 / 10, py = 5 / 10, pz = 0 \<rparr>,
                 wrist = Some \<lparr> px = 5 / 10, py = 4 / 10, pz = 0 \<rparr> \<rparr>)
         ((loaded1 0)\<lparr> state := CATCHING, repCount := 3 \<rparr>)) = 4
   \<and> (\<exists>p. onResults1
         (Some \<lparr> shoulder = Some \<lparr> px = 6 / 10, py = 3 / 10, pz = 0 \<rparr>,
                 elbow = Some \<lparr> px = 6 / 10, py = 5 / 10, pz = 0 \<rparr>,
                 wrist = Some \<lparr> px = 5 / 10, py = 4 / 10, pz = 0 \<rparr> \<rparr>)
         ((loaded1 0)\<lparr> state := CATCHING, repCount := 3 \<rparr>)
        = \<lparr> repCount = 4, state = READY, repCounterText = 4, lastHandPos = Some p \<rparr>)
   \<and> \<not> near_anchor (2 / 10)
        (Some \<lparr> shoulder = Some \<lparr> px = 6 / 10, py = 3 / 10, pz = 0 \<rparr>,
                elbow = Some \<lparr> px = 6 / 10, py = 5 / 10, pz = 0 \<rparr>,
                wrist = Some \<lparr> px = 9 / 10, py = 5 / 10, pz = 0 \<rparr> \<rparr>)
   \<and> repCount (run1
         [Some \<lparr> shoulder = Some \<lparr> px = 6 / 10, py = 3 / 10, pz = 0 \<rparr>,
                 elbow = Some \<lparr> px = 6 / 10, py = 5 / 10, pz = 0 \<rparr>,
                 wrist = Some \<lparr> px = 9 / 10, py = 5 / 10, pz = 0 \<rparr> \<rparr>,
          Some \<lparr> shoulder = Some \<lparr> px = 6 / 10, py = 3 / 10, pz = 0 \<rparr>,
                 elbow = Some \<lparr> px = 6 / 10, py = 5 / 10, pz = 0 \<rparr>,
                 wrist = Some \<lparr> px = 9 / 10, py = 5 / 10, pz = 0 \<rparr> \<rparr>]
         ((loaded1 0)\<lparr> state := CATCHING, repCount := 3 \<rparr>)) = 3"
proof -
  define R where "R = Some \<lparr> shoulder = Some \<lparr> px = 6 / 10, py = 3 / 10, pz = (0::real) \<rparr>,
                      elbow = Some \<lparr> px = 6 / 10, py = 5 / 10, pz = (0::real) \<rparr>,
                      wrist = Some \<lparr> px = 5 / 10, py = 4 / 10, pz = (0::real) \<rparr> \<rparr>"
  define F where "F = Some \<lparr> shoulder = Some \<lparr> px = 6 / 10, py = 3 / 10, pz = (0::real) \<rparr>,
                      elbow = Some \<lparr> px = 6 / 10, py = 5 / 10, pz = (0::real) \<rparr>,
                      wrist = Some \<lparr> px = 9 / 10, py = 5 / 10, pz = (0::real) \<rparr> \<rparr>"
  define S where "S = (loaded1 0)\<lparr> state := CATCHING, repCount := 3 \<rparr>"
  have d1: "sqrt ((5 / 10 - 6 / 10)\<^sup>2 + (4 / 10 - 3 / 10)\<^sup>2) < (2::real) / 10"
  proof -
    have "(5 / 10 - 6 / 10)\<^sup>2 + (4 / 10 - 3 / 10)\<^sup>2 < ((2::real) / 10)\<^sup>2"
      by (simp add: power2_eq_square)
    then show ?thesis by (rule real_less_lsqrt[rotated -1]) simp_all
  qed
  have d2: "\<not> sqrt ((9 / 10 - 6 / 10)\<^sup>2 + (5 / 10 - 3 / 10)\<^sup>2) < (2::real) / 10"
  proof -
    have "((2::real) / 10)\<^sup>2 \<le> (9 / 10 - 6 / 10)\<^sup>2 + (5 / 10 - 3 / 10)\<^sup>2"
      by (simp add: power2_eq_square)
    then have "(2::real) / 10 \<le> sqrt ((9 / 10 - 6 / 10)\<^sup>2 + (5 / 10 - 3 / 10)\<^sup>2)"
      by (rule real_le_rsqrt)
    then show ?thesis by (simp only: not_less)
  qed
  have arm: "has_arm R" by (simp add: has_arm_def R_def)
  have near: "near_anchor (2 / 10) R" using d1 by (simp add: near_anchor_def R_def)
  have far: "\<not> near_anchor (2 / 10) F" using d2 by (simp add: near_anchor_def F_def)
  have h: "state S = CATCHING" and c: "repCount S = 3" by (simp_all add: S_def)
  have nn: "\<forall>f \<in> set [F, F]. \<not> near_anchor (2 / 10) f" using far by simp
  note T = rep_completed_exactly_on_return[of S R "[F, F]"]
  from T h arm near have a1: "state (onResults1 R S) = READY" by blast
  from T have "repCount (onResults1 R S) =
       (if state S = CATCHING \<and> has_arm R \<and> near_anchor (2 / 10) R then repCount S + 1
        else repCount S)" by blast
  then have a2: "repCount (onResults1 R S) = 4" using h arm near c by simp
  from T h arm near have "\<exists>p. onResults1 R S =
           \<lparr> repCount = repCount S + 1, state = READY, repCounterText = repCount S + 1,
             lastHandPos = Some p \<rparr>" by blast
  then have a3: "\<exists>p. onResults1 R S =
           \<lparr> repCount = 4, state = READY, repCounterText = 4, lastHandPos = Some p \<rparr>"
    using c by simp
  from T nn have "repCount (run1 [F, F] S) = repCount S" by blast
  then have a4: "repCount (run1 [F, F] S) = 3" using c by simp
  show ?thesis using h arm near a1 a2 a3 far a4 unfolding R_def F_def S_def by blast
qed

text \<open>
  Claim C2 as stated fails on the first revision: the whole state after a completed rep
  is the counter, its text, the state and the wrist position of the frame. No duration
  is appended and no time of the rep is kept, on the fourth rep as on the first.
\<close>

theorem first_revision_records_no_duration_counterexample:
  "onResults1
     (Some \<lparr> shoulder = Some \<lparr> px = 2 / 10, py = 5 / 10, pz = 0 \<rparr>,
             elbow = Some \<lparr> px = 4 / 10, py = 5 / 10, pz = 0 \<rparr>,
             wrist = Some \<lparr> px = 2 / 10, py = 4 / 10, pz = 0 \<rparr> \<rparr>)
     \<lparr> repCount = 3, state = CATCHING, repCounterText = 3,
       lastHandPos = Some \<lparr> px = 3 / 10, py = 4 / 10 \<rparr> \<rparr>
   = \<lparr> repCount = 4, state = READY, repCounterText = 4,
       lastHandPos = Some \<lparr> px = 2 / 10, py = 4 / 10 \<rparr> \<rparr>"
  by (simp add: onResults1_def Let_def)

subsection \<open>The consistency score\<close>










subsection \<open>Reset of the hit detector\<close>






end
